theory Spec2Isabelle
  imports Complex_Main "HOL-Library.Product_Lexorder"
begin

section \<open>Tables, files and exceptions\<close>

text \<open>
  The three Streamlit scripts (\<^verbatim>\<open>app.py\<close>, \<^verbatim>\<open>app_wastewater.py\<close>,
  \<^verbatim>\<open>app_satelite.py\<close>) read tables of sampling stations with pandas and draw them
  with folium. A pandas table is a list of column names and a list of rows. A row
  carries the cells the scripts read: the two coordinates and the description.
  A coordinate is a finite float, taken as the rational it denotes; \<open>None\<close> is the
  missing value (NaN). The scripts read a cell only after the column of that name has
  been found among the column names, or fail with \<open>KeyError\<close>.
\<close>

datatype exn =
  FileNotFoundError | KeyError | ParserError | ValueError | TypeError | IndexError
  | AssertionError

record row =
  Latitude :: "rat option"
  Longitude :: "rat option"
  Description :: "string option"

record 'r DataFrame =
  columns :: "string list"
  rows :: "'r list"

text \<open>\<^verbatim>\<open>pd.DataFrame()\<close>: no columns, no rows.\<close>

definition DataFrame_new :: "'r DataFrame" where
  "DataFrame_new = \<lparr>columns = [], rows = []\<rparr>"

text \<open>\<^verbatim>\<open>df.empty\<close>: true when either axis has length zero.\<close>

definition df_empty :: "'r DataFrame \<Rightarrow> bool" where
  "df_empty df = (columns df = [] \<or> rows df = [])"

definition coord_cols :: "string list" where
  "coord_cols = [''Latitude'', ''Longitude'']"

text \<open>\<^verbatim>\<open>df.dropna(subset=['Latitude', 'Longitude'])\<close>: a missing column is a
  \<open>KeyError\<close>; otherwise the rows with both coordinates stay, in order.\<close>

definition dropna :: "row DataFrame \<Rightarrow> exn + row DataFrame" where
  "dropna df =
     (if set coord_cols \<subseteq> set (columns df)
      then Inr (df\<lparr>rows := filter (\<lambda>r. Latitude r \<noteq> None \<and> Longitude r \<noteq> None) (rows df)\<rparr>)
      else Inl KeyError)"

section \<open>Grouping rows by location\<close>

text \<open>
  \<^verbatim>\<open>df.groupby(['Latitude', 'Longitude'])\<close> is called with the defaults of pandas:
  \<^verbatim>\<open>sort=True\<close>, so the groups come out in ascending order of the key
  (latitude first, then longitude), and \<^verbatim>\<open>dropna=True\<close>, so a row with a missing
  key cell belongs to no group.
\<close>

definition coord_key :: "row \<Rightarrow> (rat \<times> rat) option" where
  "coord_key r =
     (case Latitude r of None \<Rightarrow> None
      | Some la \<Rightarrow> (case Longitude r of None \<Rightarrow> None | Some lo \<Rightarrow> Some (la, lo)))"

definition group_keys :: "row list \<Rightarrow> (rat \<times> rat) list" where
  "group_keys rs = List.map_filter coord_key rs"

record distinct_row =
  lat :: rat
  lon :: rat
  Count :: nat

text \<open>\<^verbatim>\<open>df.groupby(['Latitude', 'Longitude']).size().reset_index(name='Count')\<close>\<close>

definition groupby_size :: "row DataFrame \<Rightarrow> exn + distinct_row DataFrame" where
  "groupby_size df =
     (if set coord_cols \<subseteq> set (columns df)
      then Inr \<lparr>columns = [''Latitude'', ''Longitude'', ''Count''],
                rows = map (\<lambda>k. \<lparr>lat = fst k, lon = snd k,
                                   Count = count_list (group_keys (rows df)) k\<rparr>)
                           (sort (remdups (group_keys (rows df))))\<rparr>
      else Inl KeyError)"

section \<open>Map objects\<close>

text \<open>
  The folium map \<^verbatim>\<open>m\<close> is the list of the objects added to it, in the order of the
  \<^verbatim>\<open>add_to(m)\<close> calls. A circle marker keeps its location, radius, colours, the
  label and the sample count its popup prints; the site name that
  \<^verbatim>\<open>app_wastewater.py\<close> also prints, and the tooltips, are left out. A dashed circle
  keeps its centre and its radius in metres. A river layer keeps the names of the
  properties of its features and, for each feature, the colour and the weight its
  style function returns or the exception it raises.
\<close>

datatype map_object =
    is_marker: CircleMarker (location: "rat \<times> rat") (radius: rat) (color: string)
                 (fill_color: string) (label: string) (samples: nat)
  | Circle "rat \<times> rat" int
  | GeoJson "string list" "(exn + string \<times> rat) list"

text \<open>\<^verbatim>\<open>add_markers\<close> of \<^verbatim>\<open>app.py\<close>.\<close>

definition add_markers ::
  "row DataFrame \<Rightarrow> string \<Rightarrow> string \<Rightarrow> string \<Rightarrow> map_object list \<Rightarrow> exn + map_object list" where
  "add_markers df col fill lbl m =
     (if df_empty df then Inr m
      else case groupby_size df of
             Inl e \<Rightarrow> Inl e
           | Inr distinct_df \<Rightarrow>
               Inr (m @ map (\<lambda>r. CircleMarker (lat r, lon r) 4 col fill lbl (Count r))
                            (rows distinct_df)))"

text \<open>
  \<^verbatim>\<open>add_markers_and_radius\<close> of \<^verbatim>\<open>app_wastewater.py\<close> groups the same way and
  aggregates two columns: \<^verbatim>\<open>Count=('Latitude', 'size')\<close>, the size of the group, and
  \<^verbatim>\<open>Name\<close>, the first non-missing cell of the description column in the group when
  \<^verbatim>\<open>desc_col\<close> is a non-empty name found among the columns, and \<^verbatim>\<open>None\<close> otherwise.
  The only description column the script names is \<^verbatim>\<open>Description\<close>.
\<close>

record named_row = distinct_row +
  Name :: "string option"

definition text_cell :: "string \<Rightarrow> row \<Rightarrow> string option" where
  "text_cell c r = (if c = ''Description'' then Description r else None)"

fun first_valid :: "'a option list \<Rightarrow> 'a option" where
  "first_valid [] = None"
| "first_valid (None # xs) = first_valid xs"
| "first_valid (Some x # xs) = Some x"

definition groupby_agg :: "row DataFrame \<Rightarrow> string option \<Rightarrow> exn + named_row DataFrame" where
  "groupby_agg df desc_col =
     (if set coord_cols \<subseteq> set (columns df)
      then Inr \<lparr>columns = [''Latitude'', ''Longitude'', ''Count'', ''Name''],
                rows = map (\<lambda>k. \<lparr>lat = fst k, lon = snd k,
                                   Count = count_list (group_keys (rows df)) k,
                                   Name = (case desc_col of
                                             None \<Rightarrow> None
                                           | Some c \<Rightarrow>
                                               if c \<noteq> [] \<and> c \<in> set (columns df)
                                               then first_valid
                                                      (map (text_cell c)
                                                         (filter (\<lambda>r. coord_key r = Some k) (rows df)))
                                               else None)\<rparr>)
                           (sort (remdups (group_keys (rows df))))\<rparr>
      else Inl KeyError)"

text \<open>The radius of the dashed circles, \<^verbatim>\<open>radius_km\<close>, is a global of the script set by
  a select box; here it is a parameter.\<close>

definition add_markers_and_radius ::
  "int \<Rightarrow> row DataFrame \<Rightarrow> string \<Rightarrow> string \<Rightarrow> string \<Rightarrow> string option \<Rightarrow> rat \<Rightarrow> bool
     \<Rightarrow> map_object list \<Rightarrow> exn + map_object list" where
  "add_markers_and_radius radius_km df col fill group_label desc_col marker_size with_radius m =
     (if df_empty df then Inr m
      else case groupby_agg df desc_col of
             Inl e \<Rightarrow> Inl e
           | Inr distinct_df \<Rightarrow>
               Inr (m @ concat
                          (map (\<lambda>r. CircleMarker (lat r, lon r) marker_size col fill
                                       group_label (Count r)
                                     # (if with_radius \<and> radius_km > 0
                                        then [Circle (lat r, lon r) (radius_km * 1000)]
                                        else []))
                               (rows distinct_df))))"

section \<open>River colours\<close>

text \<open>
  \<^verbatim>\<open>Series.unique()\<close> of pandas returns the distinct values in order of appearance.
  \<open>unique_by\<close> keeps, for each key, the first element that has it.
\<close>

fun unique_by :: "('a \<Rightarrow> 'k) \<Rightarrow> 'a list \<Rightarrow> 'a list" where
  "unique_by f [] = []"
| "unique_by f (x # xs) = x # unique_by f (filter (\<lambda>y. f y \<noteq> f x) xs)"

definition unique :: "'a list \<Rightarrow> 'a list" where
  "unique xs = unique_by (\<lambda>x. x) xs"

text \<open>
  \<^verbatim>\<open>plt.get_cmap('tab20')\<close> is the qualitative colour map of matplotlib with twenty
  listed colours; \<^verbatim>\<open>mcolors.to_hex(colormap(j))\<close> for \<open>j < 20\<close> is the \<open>j\<close>-th of
  these strings.
\<close>

definition tab20 :: "string list" where
  "tab20 =
     [''#1f77b4'', ''#aec7e8'', ''#ff7f0e'', ''#ffbb78'', ''#2ca02c'',
      ''#98df8a'', ''#d62728'', ''#ff9896'', ''#9467bd'', ''#c5b0d5'',
      ''#8c564b'', ''#c49c94'', ''#e377c2'', ''#f7b6d2'', ''#7f7f7f'',
      ''#c7c7c7'', ''#bcbd22'', ''#dbdb8d'', ''#17becf'', ''#9edae5'']"

text \<open>The loop over \<^verbatim>\<open>enumerate(unique_main_rivers)\<close> that fills the dictionary
  \<^verbatim>\<open>river_color_map\<close>; its argument is the column \<^verbatim>\<open>rivers_gdf['MAIN_RIV']\<close>.\<close>

definition river_color_map :: "'k list \<Rightarrow> ('k \<rightharpoonup> string)" where
  "river_color_map main_riv =
     fold (\<lambda>(i, riv_id) m. m(riv_id \<mapsto> tab20 ! (i mod 20)))
          (enumerate 0 (unique main_riv)) Map.empty"

text \<open>
  A cell of the column \<^verbatim>\<open>MAIN_RIV\<close> of the river table is a value or a null. The
  null of a numeric column is \<open>NaN\<close>, the null of a column of strings is \<^verbatim>\<open>None\<close>.
  \<^verbatim>\<open>unique()\<close> keeps a null as one more value, so it gets an entry and a palette
  position in the dictionary. folium draws from the GeoJSON of the table
  (\<^verbatim>\<open>__geo_interface__\<close> of geopandas), where every \<open>NaN\<close> has become \<^verbatim>\<open>None\<close>: the
  property that the style function looks up is never \<open>NaN\<close>, and the entry of the key
  \<open>NaN\<close> is never found. The stream order \<^verbatim>\<open>ORD_STRA\<close> is an integer or null.
\<close>

datatype 'k cell = NaN | Null | Value 'k

record 'k feature =
  MAIN_RIV :: "'k cell"
  ORD_STRA :: "int option"

definition to_property :: "'k cell \<Rightarrow> 'k cell" where
  "to_property c = (case c of NaN \<Rightarrow> Null | Null \<Rightarrow> Null | Value k \<Rightarrow> Value k)"

text \<open>The colour of the style function: \<^verbatim>\<open>river_color_map.get(..., '#87CEFA')\<close> in
  \<^verbatim>\<open>app.py\<close> and \<^verbatim>\<open>river_color_map.get(..., '#00FFFF')\<close> in
  \<^verbatim>\<open>app_wastewater.py\<close>.\<close>

definition style_color :: "('k \<rightharpoonup> string) \<Rightarrow> 'k \<Rightarrow> string" where
  "style_color cm k = (case cm k of None \<Rightarrow> ''#87CEFA'' | Some c \<Rightarrow> c)"

definition style_color_wastewater :: "('k \<rightharpoonup> string) \<Rightarrow> 'k \<Rightarrow> string" where
  "style_color_wastewater cm k = (case cm k of None \<Rightarrow> ''#00FFFF'' | Some c \<Rightarrow> c)"

text \<open>\<^verbatim>\<open>x['properties'].get('ORD_STRA', 1)\<close>: 1 when the features have no such
  property, and otherwise the stream order, which may be \<^verbatim>\<open>None\<close>.\<close>

definition ord_stra :: "string list \<Rightarrow> 'k feature \<Rightarrow> rat option" where
  "ord_stra cols x =
     (if ''ORD_STRA'' \<in> set cols then map_option of_int (ORD_STRA x) else Some 1)"

text \<open>The style functions: the colour, then the weight; multiplying \<^verbatim>\<open>None\<close> raises
  \<open>TypeError\<close>.\<close>

definition style_function ::
  "('k cell \<rightharpoonup> string) \<Rightarrow> string list \<Rightarrow> 'k feature \<Rightarrow> exn + string \<times> rat" where
  "style_function cm cols x =
     (let c = style_color cm (to_property (MAIN_RIV x)) in
      case ord_stra cols x of
        None \<Rightarrow> Inl TypeError
      | Some w \<Rightarrow> Inr (c, w * (1 / 4)))"

definition style_function_wastewater ::
  "('k cell \<rightharpoonup> string) \<Rightarrow> string list \<Rightarrow> 'k feature \<Rightarrow> exn + string \<times> rat" where
  "style_function_wastewater cm cols x =
     (let c = style_color_wastewater cm (to_property (MAIN_RIV x)) in
      case ord_stra cols x of
        None \<Rightarrow> Inl TypeError
      | Some w \<Rightarrow> Inr (c, w * (1 / 2) + 1 / 2))"

text \<open>
  Step 5 of both scripts: the river layer is added when the box is ticked and the
  river table was loaded. Reading the column \<^verbatim>\<open>MAIN_RIV\<close> of a table without it is a
  \<open>KeyError\<close>. \<^verbatim>\<open>folium.GeoJson\<close> calls the style function on the first feature, if
  there is one, when the layer is made, and on every feature when the map is
  rendered.
\<close>

definition add_rivers ::
  "(('k cell \<rightharpoonup> string) \<Rightarrow> string list \<Rightarrow> 'k feature \<Rightarrow> exn + string \<times> rat) \<Rightarrow> bool
     \<Rightarrow> 'k feature DataFrame option \<Rightarrow> map_object list \<Rightarrow> exn + map_object list" where
  "add_rivers style show_rivers rivers_gdf m =
     (case rivers_gdf of
        None \<Rightarrow> Inr m
      | Some gdf \<Rightarrow>
          if \<not> show_rivers then Inr m
          else if ''MAIN_RIV'' \<in> set (columns gdf)
          then (let cm = river_color_map (map MAIN_RIV (rows gdf));
                    styles = map (style cm (columns gdf)) (rows gdf)
                in case styles of
                     Inl e # _ \<Rightarrow> Inl e
                   | _ \<Rightarrow> Inr (m @ [GeoJson (columns gdf) styles]))
          else Inl KeyError)"

text \<open>
  Step 7, \<^verbatim>\<open>st_folium(m, ...)\<close>, renders the map, object by object in the order
  they were added. A marker or a circle renders. A river layer applies its style
  function to every feature; then its tooltip,
  \<^verbatim>\<open>GeoJsonTooltip(fields=['MAIN_RIV', 'ORD_STRA'])\<close>, reads the properties of the
  first feature (\<open>IndexError\<close> when there is none) and asserts that both fields are
  among them.
\<close>

definition render :: "map_object \<Rightarrow> exn option" where
  "render ob =
     (case ob of
        GeoJson keys styles \<Rightarrow>
          (case find isl styles of
             Some (Inl e) \<Rightarrow> Some e
           | _ \<Rightarrow>
               if styles = [] then Some IndexError
               else if set [''MAIN_RIV'', ''ORD_STRA''] \<subseteq> set keys then None
               else Some AssertionError)
      | _ \<Rightarrow> None)"

definition st_folium :: "map_object list \<Rightarrow> exn + map_object list" where
  "st_folium m = (case List.map_filter render m of [] \<Rightarrow> Inr m | e # _ \<Rightarrow> Inl e)"

section \<open>Files and loaders\<close>

text \<open>
  The file system maps a path to the file found there, if any. A file parses as a
  table under \<^verbatim>\<open>pd.read_csv\<close>, under \<^verbatim>\<open>pd.read_excel\<close> or under
  \<^verbatim>\<open>gpd.read_file\<close>, or under none of them; the wrong reader raises.
\<close>

datatype 'k content =
    CsvFile "row DataFrame"
  | ExcelFile "row DataFrame"
  | GeoJsonFile "'k feature DataFrame"
  | Garbage

type_synonym 'k filesystem = "string \<Rightarrow> 'k content option"

definition read_csv :: "'k filesystem \<Rightarrow> string \<Rightarrow> exn + row DataFrame" where
  "read_csv fs p =
     (case fs p of
        None \<Rightarrow> Inl FileNotFoundError
      | Some (CsvFile df) \<Rightarrow> Inr df
      | Some _ \<Rightarrow> Inl ParserError)"

definition read_excel :: "'k filesystem \<Rightarrow> string \<Rightarrow> exn + row DataFrame" where
  "read_excel fs p =
     (case fs p of
        None \<Rightarrow> Inl FileNotFoundError
      | Some (ExcelFile df) \<Rightarrow> Inr df
      | Some _ \<Rightarrow> Inl ParserError)"

definition read_file :: "'k filesystem \<Rightarrow> string \<Rightarrow> exn + 'k feature DataFrame" where
  "read_file fs p =
     (case fs p of
        None \<Rightarrow> Inl FileNotFoundError
      | Some (GeoJsonFile gdf) \<Rightarrow> Inr gdf
      | Some _ \<Rightarrow> Inl ParserError)"

text \<open>\<^verbatim>\<open>load_data\<close> of \<^verbatim>\<open>app.py\<close> catches \<^verbatim>\<open>FileNotFoundError\<close> only.\<close>

definition load_data :: "'k filesystem \<Rightarrow> string \<Rightarrow> exn + row DataFrame" where
  "load_data fs file_path =
     (case read_csv fs file_path of
        Inl FileNotFoundError \<Rightarrow> Inr DataFrame_new
      | Inl e \<Rightarrow> Inl e
      | Inr df \<Rightarrow> dropna df)"

text \<open>\<^verbatim>\<open>load_river_data\<close> of both scripts catches every exception and returns
  \<^verbatim>\<open>None\<close>.\<close>

definition load_river_data :: "'k filesystem \<Rightarrow> string \<Rightarrow> 'k feature DataFrame option" where
  "load_river_data fs file_path =
     (case read_file fs file_path of Inl e \<Rightarrow> None | Inr gdf \<Rightarrow> Some gdf)"

text \<open>
  A \<open>string\<close> is a list of bytes: the UTF-8 encoding of the Python string, as for
  the literals of Isabelle. \<^verbatim>\<open>str.strip()\<close> removes the leading and the trailing
  characters for which \<^verbatim>\<open>str.isspace\<close> holds. These are the code points U+0009 to
  U+000D, U+001C to U+0020, U+0085, U+00A0, U+1680, U+2000 to U+200A, U+2028, U+2029,
  U+202F, U+205F and U+3000; \<open>whitespace\<close> lists their encodings, of one, two or three
  bytes. No encoding of a code point ends with the encoding of another one, so the
  last character of a string is a space if and only if the string ends with one of
  these byte sequences.
\<close>

definition whitespace :: "string list" where
  "whitespace =
     [[CHR 0x09], [CHR 0x0A], [CHR 0x0B], [CHR 0x0C], [CHR 0x0D],
      [CHR 0x1C], [CHR 0x1D], [CHR 0x1E], [CHR 0x1F], [CHR 0x20],
      [CHR 0xC2, CHR 0x85], [CHR 0xC2, CHR 0xA0],
      [CHR 0xE1, CHR 0x9A, CHR 0x80],
      [CHR 0xE2, CHR 0x80, CHR 0x80], [CHR 0xE2, CHR 0x80, CHR 0x81],
      [CHR 0xE2, CHR 0x80, CHR 0x82], [CHR 0xE2, CHR 0x80, CHR 0x83],
      [CHR 0xE2, CHR 0x80, CHR 0x84], [CHR 0xE2, CHR 0x80, CHR 0x85],
      [CHR 0xE2, CHR 0x80, CHR 0x86], [CHR 0xE2, CHR 0x80, CHR 0x87],
      [CHR 0xE2, CHR 0x80, CHR 0x88], [CHR 0xE2, CHR 0x80, CHR 0x89],
      [CHR 0xE2, CHR 0x80, CHR 0x8A],
      [CHR 0xE2, CHR 0x80, CHR 0xA8], [CHR 0xE2, CHR 0x80, CHR 0xA9],
      [CHR 0xE2, CHR 0x80, CHR 0xAF], [CHR 0xE2, CHR 0x81, CHR 0x9F],
      [CHR 0xE3, CHR 0x80, CHR 0x80]]"

text \<open>\<open>lstrip_with ws s\<close> removes from the front of \<open>s\<close>, as long as there is one, a
  sequence of \<open>ws\<close> that \<open>s\<close> starts with.\<close>

function lstrip_with :: "string list \<Rightarrow> string \<Rightarrow> string" where
  "lstrip_with ws s =
     (case find (\<lambda>w. w \<noteq> [] \<and> take (length w) s = w) ws of
        None \<Rightarrow> s
      | Some w \<Rightarrow> lstrip_with ws (drop (length w) s))"
  by pat_completeness auto
termination
proof (relation "measure (\<lambda>(ws, s). length s)")
  show "wf (measure (\<lambda>(ws, s). length s))" by simp
next
  fix ws :: "string list" and s w :: string
  assume "find (\<lambda>w. w \<noteq> [] \<and> take (length w) s = w) ws = Some w"
  then have "w \<noteq> []" and "take (length w) s = w"
    by (auto simp: find_Some_iff)
  have "length w = min (length s) (length w)"
    using \<open>take (length w) s = w\<close> length_take [of "length w" s] by simp
  with \<open>w \<noteq> []\<close> have "0 < length w" and "length w \<le> length s"
    by simp_all
  then have "length s - length w < length s" by arith
  then show "((ws, drop (length w) s), (ws, s)) \<in> measure (\<lambda>(ws, s). length s)"
    by simp
qed

definition strip :: "string \<Rightarrow> string" where
  "strip s = rev (lstrip_with (map rev whitespace) (rev (lstrip_with whitespace s)))"

definition endswith :: "string \<Rightarrow> string \<Rightarrow> bool" where
  "endswith s suf = (length suf \<le> length s \<and> drop (length s - length suf) s = suf)"

text \<open>The path correction at the head of \<^verbatim>\<open>load_data\<close> of
  \<^verbatim>\<open>app_wastewater.py\<close>; \<open>None\<close> is the early \<^verbatim>\<open>return pd.DataFrame()\<close>.\<close>

definition resolve_path :: "'k filesystem \<Rightarrow> string \<Rightarrow> string option" where
  "resolve_path fs file_path =
     (if fs file_path = None
      then (if fs (file_path @ '' - Sheet1.csv'') \<noteq> None
            then Some (file_path @ '' - Sheet1.csv'')
            else if fs file_path = None then None else Some file_path)
      else Some file_path)"

text \<open>
  \<^verbatim>\<open>load_data\<close> of \<^verbatim>\<open>app_wastewater.py\<close> never raises. It returns the table
  together with the exception it reported through \<^verbatim>\<open>st.error\<close>, if any.
\<close>

definition load_data_wastewater :: "'k filesystem \<Rightarrow> string \<Rightarrow> row DataFrame \<times> exn option" where
  "load_data_wastewater fs file_path =
     (case resolve_path fs file_path of
        None \<Rightarrow> (DataFrame_new, None)
      | Some p \<Rightarrow>
          (case (if endswith p ''.xlsx'' then read_excel fs p else read_csv fs p) of
             Inl e \<Rightarrow> (DataFrame_new, Some e)
           | Inr df0 \<Rightarrow>
               let df = df0\<lparr>columns := map strip (columns df0)\<rparr> in
               if ''Latitude'' \<in> set (columns df) \<and> ''Longitude'' \<in> set (columns df)
               then (case dropna df of
                       Inl e \<Rightarrow> (DataFrame_new, Some e)
                     | Inr d \<Rightarrow> (d, None))
               else (DataFrame_new, None)))"

section \<open>The scripts\<close>

text \<open>
  \<^verbatim>\<open>df[['Latitude', 'Longitude']]\<close>, used to centre the map: a \<open>KeyError\<close> when
  a column is missing. The centre itself, a floating-point mean, is left out.
\<close>

definition select_coords :: "row DataFrame \<Rightarrow> exn + (rat option \<times> rat option) list" where
  "select_coords df =
     (if set coord_cols \<subseteq> set (columns df)
      then Inr (map (\<lambda>r. (Latitude r, Longitude r)) (rows df))
      else Inl KeyError)"

text \<open>An exception ends the script: the rest runs only on a result.\<close>

definition on_result :: "exn + 'a \<Rightarrow> ('a \<Rightarrow> exn + 'b) \<Rightarrow> exn + 'b" where
  "on_result x f = (case x of Inl e \<Rightarrow> Inl e | Inr v \<Rightarrow> f v)"

text \<open>\<^verbatim>\<open>app.py\<close> from top to bottom; the result is the list of the objects on the
  rendered map, or the exception that ends the script.\<close>

definition app :: "'k filesystem \<Rightarrow> bool \<Rightarrow> bool \<Rightarrow> bool \<Rightarrow> exn + map_object list" where
  "app fs show_train show_val show_rivers =
     on_result (load_data fs ''TRAINING_SET.csv'') (\<lambda>df_train.
     on_result (load_data fs ''VALIDATION_SET.csv'') (\<lambda>df_val.
     let rivers_gdf = load_river_data fs ''sa_rivers_final.geojson'' in
     on_result (select_coords df_train) (\<lambda>c1.
     on_result (select_coords df_val) (\<lambda>c2.
     on_result (add_rivers style_function show_rivers rivers_gdf []) (\<lambda>m1.
     on_result (if show_train
                then add_markers df_train ''dodgerblue'' ''cyan'' ''Training'' m1
                else Inr m1) (\<lambda>m2.
     on_result (if show_val
                then add_markers df_val ''darkred'' ''red'' ''Validation'' m2
                else Inr m2) (\<lambda>m3.
     st_folium m3)))))))"

text \<open>\<^verbatim>\<open>app_wastewater.py\<close> from top to bottom. Only the tables that are not empty
  are asked for their coordinate columns.\<close>

fun select_all :: "row DataFrame list \<Rightarrow> exn + (rat option \<times> rat option) list" where
  "select_all [] = Inr []"
| "select_all (df # dfs) =
     on_result (select_coords df) (\<lambda>c.
     on_result (select_all dfs) (\<lambda>cs. Inr (c @ cs)))"

definition app_wastewater ::
  "'k filesystem \<Rightarrow> bool \<Rightarrow> bool \<Rightarrow> bool \<Rightarrow> bool \<Rightarrow> int \<Rightarrow> exn + map_object list" where
  "app_wastewater fs show_train show_val show_wastewater show_rivers radius_km =
     (let df_train = fst (load_data_wastewater fs ''TRAINING_SET.csv'');
          df_val = fst (load_data_wastewater fs ''VALIDATION_SET.csv'');
          df_wastewater = fst (load_data_wastewater fs ''Waste_Water.xlsx'');
          rivers_gdf = load_river_data fs ''sa_rivers_final.geojson'';
          data_frames = filter (\<lambda>df. \<not> df_empty df) [df_train, df_val, df_wastewater]
      in
      on_result (select_all data_frames) (\<lambda>all_coords.
      on_result (add_rivers style_function_wastewater show_rivers rivers_gdf []) (\<lambda>m1.
      on_result (if show_train
                 then add_markers_and_radius radius_km df_train ''dodgerblue'' ''cyan''
                        ''Training Set'' None 5 True m1
                 else Inr m1) (\<lambda>m2.
      on_result (if show_val
                 then add_markers_and_radius radius_km df_val ''darkred'' ''red''
                        ''Validation Set'' None 5 True m2
                 else Inr m2) (\<lambda>m3.
      on_result (if show_wastewater
                 then add_markers_and_radius radius_km df_wastewater ''lime'' ''#39FF14''
                        ''Waste Water / Dam'' (Some ''Description'') (5 / 4) False m3
                 else Inr m3) (\<lambda>m4.
      st_folium m4))))))"

section \<open>Unique stations and the display cap\<close>

text \<open>
  \<^verbatim>\<open>load_unique_data\<close> of \<^verbatim>\<open>app_satelite.py\<close> keeps the two coordinate columns of
  each file, adds the column \<^verbatim>\<open>Source\<close>, appends the tables in the order of the
  dictionary \<^verbatim>\<open>files\<close> and drops the rows whose coordinates were seen before. No
  row is dropped for a missing coordinate here, and two missing values count as equal
  in \<^verbatim>\<open>drop_duplicates\<close>.
\<close>

record station =
  Lat :: "rat option"
  Lon :: "rat option"
  Source :: string

definition files :: "(string \<times> string) list" where
  "files = [(''Training Set'', ''TRAINING_SET.csv''), (''Validation Set'', ''VALIDATION_SET.csv'')]"

text \<open>\<^verbatim>\<open>pd.concat([a, b], ignore_index=True)\<close>\<close>

definition concat_df :: "'r DataFrame \<Rightarrow> 'r DataFrame \<Rightarrow> 'r DataFrame" where
  "concat_df a b =
     \<lparr>columns = columns a @ filter (\<lambda>c. c \<notin> set (columns a)) (columns b),
      rows = rows a @ rows b\<rparr>"

text \<open>A row of \<^verbatim>\<open>temp\<close>: the two coordinates of a row and the source.\<close>

definition tag :: "string \<Rightarrow> row \<Rightarrow> station" where
  "tag source r = \<lparr>Lat = Latitude r, Lon = Longitude r, Source = source\<rparr>"

text \<open>One turn of the loop over \<^verbatim>\<open>files.items()\<close>; every exception skips the file.\<close>

definition load_one :: "'k filesystem \<Rightarrow> string \<times> string \<Rightarrow> station DataFrame \<Rightarrow> station DataFrame" where
  "load_one fs sf combined_df =
     (case read_csv fs (snd sf) of
        Inl e \<Rightarrow> combined_df
      | Inr df \<Rightarrow>
          if set coord_cols \<subseteq> set (columns df)
          then concat_df combined_df
                 \<lparr>columns = [''Latitude'', ''Longitude'', ''Source''],
                  rows = map (tag (fst sf)) (rows df)\<rparr>
          else combined_df)"

definition station_key :: "station \<Rightarrow> rat option \<times> rat option" where
  "station_key r = (Lat r, Lon r)"

text \<open>\<^verbatim>\<open>drop_duplicates(subset=['Latitude', 'Longitude'])\<close> returns a copy of an empty
  table before it looks at the columns.\<close>

definition drop_duplicates :: "station DataFrame \<Rightarrow> exn + station DataFrame" where
  "drop_duplicates df =
     (if df_empty df then Inr df
      else if set coord_cols \<subseteq> set (columns df)
      then Inr (df\<lparr>rows := unique_by station_key (rows df)\<rparr>)
      else Inl KeyError)"

definition load_unique_data :: "'k filesystem \<Rightarrow> exn + station DataFrame" where
  "load_unique_data fs = drop_duplicates (fold (load_one fs) files DataFrame_new)"

text \<open>
  \<^verbatim>\<open>df.sample(n=..., random_state=...)\<close> of pandas draws row positions with the
  \<^verbatim>\<open>choice\<close> of a numpy generator, without replacement. An integer
  \<^verbatim>\<open>random_state\<close> makes a new generator from that seed; without one the global
  generator of numpy is used. The generator is a parameter: \<open>seed_rng\<close> makes the
  state of a seed, and \<open>choice g M n\<close> are the \<open>n\<close> positions drawn from \<open>M\<close> rows
  in state \<open>g\<close>.
\<close>

definition sample ::
  "(int \<Rightarrow> 'g) \<Rightarrow> ('g \<Rightarrow> nat \<Rightarrow> nat \<Rightarrow> nat list) \<Rightarrow> 'g \<Rightarrow> 'r DataFrame \<Rightarrow> int \<Rightarrow> int option
     \<Rightarrow> exn + 'r DataFrame" where
  "sample seed_rng choice global_rng df n random_state =
     (let rs = (case random_state of None \<Rightarrow> global_rng | Some seed \<Rightarrow> seed_rng seed) in
      if n < 0 then Inl ValueError
      else if n > int (length (rows df)) then Inl ValueError
      else Inr (df\<lparr>rows := map (\<lambda>i. rows df ! i) (choice rs (length (rows df)) (nat n))\<rparr>))"

text \<open>Step 4 of \<^verbatim>\<open>app_satelite.py\<close>: the table that is drawn.\<close>

definition display_df ::
  "(int \<Rightarrow> 'g) \<Rightarrow> ('g \<Rightarrow> nat \<Rightarrow> nat \<Rightarrow> nat list) \<Rightarrow> 'g \<Rightarrow> 'r DataFrame \<Rightarrow> int
     \<Rightarrow> exn + 'r DataFrame" where
  "display_df seed_rng choice global_rng df max_points =
     (if int (length (rows df)) > max_points
      then sample seed_rng choice global_rng df max_points (Some 42)
      else Inr df)"

text \<open>
  Lines 50 to 54 of \<^verbatim>\<open>app_satelite.py\<close>: the script loads the unique stations, and
  on an empty table it shows an error with \<^verbatim>\<open>st.error\<close> and ends with
  \<^verbatim>\<open>st.stop()\<close>. Otherwise the sidebar, \<open>display_df\<close> and the drawing loop go on
  with the table.
\<close>

datatype 'a script = Stopped string | Continues 'a

text \<open>The text of the error; \<open>CHR 0x27\<close> is the single quote.\<close>

definition not_found :: string where
  "not_found =
     ''Error: CSV files not found. Please check '' @ [CHR 0x27] @ ''TRAINING_SET.csv''
     @ [CHR 0x27] @ '' and '' @ [CHR 0x27] @ ''VALIDATION_SET.csv'' @ [CHR 0x27] @ ''.''"

definition app_satelite :: "'k filesystem \<Rightarrow> exn + station DataFrame script" where
  "app_satelite fs =
     on_result (load_unique_data fs) (\<lambda>df.
     if df_empty df then Inr (Stopped not_found) else Inr (Continues df))"

section \<open>Example tables and directories\<close>

definition mk_row :: "rat \<Rightarrow> rat \<Rightarrow> row" where
  "mk_row la lo = \<lparr>Latitude = Some la, Longitude = Some lo, Description = None\<rparr>"

definition stations_a :: "row DataFrame" where
  "stations_a = \<lparr>columns = [''Latitude'', ''Longitude''],
                  rows = [mk_row 1 2, mk_row 1 2, mk_row 3 4]\<rparr>"

definition stations_b :: "row DataFrame" where
  "stations_b = \<lparr>columns = [''Latitude'', ''Longitude''],
                  rows = [mk_row 3 4, mk_row 1 2]\<rparr>"

text \<open>A directory with the training file only: no validation file, no waste-water
  file, no river file.\<close>

definition files_a :: "int filesystem" where
  "files_a = [''TRAINING_SET.csv'' \<mapsto> CsvFile stations_a]"

text \<open>A column of river identifiers with 23 distinct values.\<close>

definition many_rivers :: "int list" where
  "many_rivers = [7, 3, 7, 11, 12, 13, 14, 15, 16, 17, 18, 19, 20, 21, 22, 23, 24, 25, 26,
                  27, 28, 29, 30, 3, 31]"

text \<open>A river table with a null identifier on its second feature, and the same
  table without the column \<^verbatim>\<open>ORD_STRA\<close>.\<close>

definition rivers_null :: "int feature DataFrame" where
  "rivers_null =
     \<lparr>columns = [''MAIN_RIV'', ''ORD_STRA''],
      rows = [\<lparr>MAIN_RIV = Value 7, ORD_STRA = Some 4\<rparr>,
              \<lparr>MAIN_RIV = NaN, ORD_STRA = Some 2\<rparr>,
              \<lparr>MAIN_RIV = Value 9, ORD_STRA = Some 1\<rparr>]\<rparr>"

definition rivers_no_order :: "int feature DataFrame" where
  "rivers_no_order = rivers_null\<lparr>columns := [''MAIN_RIV'']\<rparr>"

text \<open>A generator for the examples: the state is a number, an even state draws the
  first positions and an odd state the last ones, in reverse.\<close>

definition example_seed :: "int \<Rightarrow> nat" where
  "example_seed s = nat \<bar>s\<bar>"

definition example_choice :: "nat \<Rightarrow> nat \<Rightarrow> nat \<Rightarrow> nat list" where
  "example_choice g M n = (if even g then [0..<n] else rev [M - n..<M])"

text \<open>The same single station in the training and in the validation file.\<close>

definition one_station :: "row DataFrame" where
  "one_station = \<lparr>columns = [''Latitude'', ''Longitude''], rows = [mk_row 1 1]\<rparr>"

definition files_tv :: "int filesystem" where
  "files_tv = [''TRAINING_SET.csv'' \<mapsto> CsvFile one_station,
               ''VALIDATION_SET.csv'' \<mapsto> CsvFile one_station]"




text \<open>A training file whose header has a no-break space (U+00A0, the bytes C2 A0)
  before \<^verbatim>\<open>Latitude\<close> and an em space (U+2003, the bytes E2 80 83) after
  \<^verbatim>\<open>Longitude\<close>.\<close>

definition nbsp_Latitude :: string where
  "nbsp_Latitude = CHR 0xC2 # CHR 0xA0 # ''Latitude''"

definition Longitude_emsp :: string where
  "Longitude_emsp = ''Longitude'' @ [CHR 0xE2, CHR 0x80, CHR 0x83]"

definition padded :: "row DataFrame" where
  "padded = \<lparr>columns = [nbsp_Latitude, Longitude_emsp], rows = [mk_row 1 2]\<rparr>"

definition files_padded :: "int filesystem" where
  "files_padded = [''TRAINING_SET.csv'' \<mapsto> CsvFile padded]"

section \<open>An invariant of the combined table\<close>

text \<open>The table built by the loop of \<^verbatim>\<open>load_unique_data\<close> is \<^verbatim>\<open>pd.DataFrame()\<close> or
  has the three columns of \<^verbatim>\<open>temp\<close>.\<close>

definition combined_ok :: "station DataFrame \<Rightarrow> bool" where
  "combined_ok c = (c = DataFrame_new \<or> columns c = [''Latitude'', ''Longitude'', ''Source''])"

section \<open>Grouping: order, counts and conservation\<close>

lemma group_keys_count:
  "count_list (group_keys rs) k = length (filter (\<lambda>r. coord_key r = Some k) rs)"
  by (induction rs) (auto simp: group_keys_def split: option.splits)

lemma sum_counts:
  "sum_list (map (count_list xs) (sort (remdups xs))) = length xs"
proof -
  have "sum_list (map (count_list xs) (sort (remdups xs))) = sum (count_list xs) (set (sort (remdups xs)))"
    by (rule sum_list_distinct_conv_sum_set) simp
  also have "\<dots> = length xs"
    by (simp add: sum_count_set)
  finally show ?thesis .
qed

lemma group_keys_all:
  "\<forall>r\<in>set rs. Latitude r \<noteq> None \<and> Longitude r \<noteq> None \<Longrightarrow> length (group_keys rs) = length rs"
  by (induction rs) (auto simp: group_keys_def coord_key_def split: option.splits)

lemma groups_strictly_ascending: "sorted_wrt (<) (sort (remdups xs))"
  by (simp add: strict_sorted_iff)

lemma count_pos: "k \<in> set xs \<Longrightarrow> 0 < count_list xs k"
  using count_list_0_iff [of xs k] by simp

lemma add_markers_eq:
  assumes "set coord_cols \<subseteq> set (columns df)"
  shows "add_markers df c f l m =
           Inr (m @ map (\<lambda>k. CircleMarker k 4 c f l (count_list (group_keys (rows df)) k))
                        (sort (remdups (group_keys (rows df)))))"
proof (cases "rows df = []")
  case True
  then show ?thesis by (simp add: add_markers_def df_empty_def group_keys_def)
next
  case False
  with assms have "\<not> df_empty df" by (auto simp: df_empty_def coord_cols_def)
  with assms show ?thesis
    by (simp add: add_markers_def groupby_size_def o_def)
qed

lemma add_markers_and_radius_eq:
  assumes "set coord_cols \<subseteq> set (columns df)"
  shows "\<exists>ms. add_markers_and_radius rk df c f l dc sz wr [] = Inr ms \<and>
           filter is_marker ms =
             map (\<lambda>k. CircleMarker k sz c f l (count_list (group_keys (rows df)) k))
                 (sort (remdups (group_keys (rows df))))"
proof (cases "rows df = []")
  case True
  then show ?thesis by (simp add: add_markers_and_radius_def df_empty_def group_keys_def)
next
  case False
  with assms have "\<not> df_empty df" by (auto simp: df_empty_def coord_cols_def)
  with assms show ?thesis
    by (simp add: add_markers_and_radius_def groupby_agg_def o_def filter_concat)
qed

text \<open>
  C1, as the scripts have it. For a table with the columns \<^verbatim>\<open>Latitude\<close> and
  \<^verbatim>\<open>Longitude\<close>, \<^verbatim>\<open>add_markers\<close> and \<^verbatim>\<open>add_markers_and_radius\<close> draw exactly
  one marker for each distinct pair of coordinates, its count is the number of rows
  with that pair, and the markers come in strictly ascending order of
  (latitude, longitude): pandas sorts the groups, it does not keep the order in
  which the keys were first met.
\<close>

theorem groups_sorted_by_key:
  assumes "set coord_cols \<subseteq> set (columns df)"
  shows "(\<exists>ms. add_markers df c f l [] = Inr ms
            \<and> sorted_wrt (<) (map location ms)
            \<and> set (map location ms) = set (group_keys (rows df))
            \<and> (\<forall>m\<in>set ms. samples m =
                  length (filter (\<lambda>r. coord_key r = Some (location m)) (rows df))))
       \<and> (\<exists>ms. add_markers_and_radius rk df c f l dc sz wr [] = Inr ms
            \<and> sorted_wrt (<) (map location (filter is_marker ms))
            \<and> set (map location (filter is_marker ms)) = set (group_keys (rows df))
            \<and> (\<forall>m\<in>set (filter is_marker ms). samples m =
                  length (filter (\<lambda>r. coord_key r = Some (location m)) (rows df))))"
proof -
  let ?ks = "sort (remdups (group_keys (rows df)))"
  let ?mk = "\<lambda>r k. CircleMarker k r c f l (count_list (group_keys (rows df)) k)"
  have loc: "map location (map (?mk r) ?ks) = ?ks" for r
    by (simp add: o_def)
  have cnt: "\<forall>m\<in>set (map (?mk r) ?ks). samples m =
               length (filter (\<lambda>x. coord_key x = Some (location m)) (rows df))" for r
    by (auto simp: group_keys_count)
  have a: "add_markers df c f l [] = Inr (map (?mk 4) ?ks)"
    using add_markers_eq [OF assms, of c f l "[]"] by simp
  obtain ms where b: "add_markers_and_radius rk df c f l dc sz wr [] = Inr ms"
    and fm: "filter is_marker ms = map (?mk sz) ?ks"
    using add_markers_and_radius_eq [OF assms] by blast
  have m1: "sorted_wrt (<) (map location (map (?mk 4) ?ks))"
    unfolding loc by (rule groups_strictly_ascending)
  have m2: "set (map location (map (?mk 4) ?ks)) = set (group_keys (rows df))"
    unfolding loc by simp
  have w1: "sorted_wrt (<) (map location (filter is_marker ms))"
    unfolding fm loc by (rule groups_strictly_ascending)
  have w2: "set (map location (filter is_marker ms)) = set (group_keys (rows df))"
    unfolding fm loc by simp
  have w3: "\<forall>m\<in>set (filter is_marker ms). samples m =
               length (filter (\<lambda>x. coord_key x = Some (location m)) (rows df))"
    unfolding fm by (rule cnt)
  show ?thesis
  proof (intro conjI exI)
    show "add_markers df c f l [] = Inr (map (?mk 4) ?ks)" by (rule a)
    show "add_markers_and_radius rk df c f l dc sz wr [] = Inr ms" by (rule b)
  qed (rule m1 m2 cnt w1 w2 w3)+
qed

text \<open>The theorem at the table \<open>[(3,4), (1,2)]\<close>: the marker of \<open>(1,2)\<close> comes
  first.\<close>

theorem groups_sorted_by_key_witness:
  "set coord_cols \<subseteq> set (columns stations_b)
   \<and> add_markers stations_b ''dodgerblue'' ''cyan'' ''Training'' [] =
       Inr [CircleMarker (1, 2) 4 ''dodgerblue'' ''cyan'' ''Training'' 1,
            CircleMarker (3, 4) 4 ''dodgerblue'' ''cyan'' ''Training'' 1]
   \<and> (\<exists>ms. add_markers stations_b ''dodgerblue'' ''cyan'' ''Training'' [] = Inr ms
            \<and> sorted_wrt (<) (map location ms))"
proof -
  have h: "set coord_cols \<subseteq> set (columns stations_b)"
    by (simp add: coord_cols_def stations_b_def)
  have e: "add_markers stations_b ''dodgerblue'' ''cyan'' ''Training'' [] =
       Inr [CircleMarker (1, 2) 4 ''dodgerblue'' ''cyan'' ''Training'' 1,
            CircleMarker (3, 4) 4 ''dodgerblue'' ''cyan'' ''Training'' 1]"
    by (simp add: add_markers_def groupby_size_def df_empty_def stations_b_def mk_row_def
         coord_cols_def group_keys_def coord_key_def)
  from groups_sorted_by_key [OF h, of "''dodgerblue''" "''cyan''" "''Training''"]
  have "\<exists>ms. add_markers stations_b ''dodgerblue'' ''cyan'' ''Training'' [] = Inr ms
            \<and> sorted_wrt (<) (map location ms)" by blast
  with h e show ?thesis by blast
qed

text \<open>
  C1 as stated asks for the order of first appearance. On the rows
  \<open>[(3,4), (1,2)]\<close> that order is \<open>[(3,4), (1,2)]\<close>, and \<^verbatim>\<open>add_markers\<close> draws
  \<open>(1,2)\<close> before \<open>(3,4)\<close>.
\<close>

theorem first_seen_order_counterexample:
  "add_markers stations_b ''dodgerblue'' ''cyan'' ''Training'' [] =
       Inr [CircleMarker (1, 2) 4 ''dodgerblue'' ''cyan'' ''Training'' 1,
            CircleMarker (3, 4) 4 ''dodgerblue'' ''cyan'' ''Training'' 1]
   \<and> unique (group_keys (rows stations_b)) = [(3, 4), (1, 2)]"
  by (simp add: add_markers_def groupby_size_def df_empty_def stations_b_def mk_row_def
         coord_cols_def group_keys_def coord_key_def unique_def)

section \<open>What the loaders hand to the aggregation\<close>

lemma dropna_rows:
  "dropna df0 = Inr df \<Longrightarrow>
     set coord_cols \<subseteq> set (columns df)
     \<and> (\<forall>r\<in>set (rows df). Latitude r \<noteq> None \<and> Longitude r \<noteq> None)"
  by (auto simp: dropna_def split: if_splits)

lemma load_data_rows:
  assumes "load_data fs p = Inr df"
  shows "(rows df = [] \<or> set coord_cols \<subseteq> set (columns df))
         \<and> (\<forall>r\<in>set (rows df). Latitude r \<noteq> None \<and> Longitude r \<noteq> None)"
proof (cases "read_csv fs p")
  case (Inl e)
  with assms have "df = DataFrame_new"
    by (cases e) (simp_all add: load_data_def)
  then show ?thesis by (simp add: DataFrame_new_def)
next
  case (Inr df0)
  with assms have "dropna df0 = Inr df" by (simp add: load_data_def)
  from dropna_rows [OF this] show ?thesis by blast
qed

lemma load_data_wastewater_rows:
  assumes "df = fst (load_data_wastewater fs p)"
  shows "(rows df = [] \<or> set coord_cols \<subseteq> set (columns df))
         \<and> (\<forall>r\<in>set (rows df). Latitude r \<noteq> None \<and> Longitude r \<noteq> None)"
proof -
  have "df = DataFrame_new \<or> (\<exists>df0. dropna df0 = Inr df)"
    unfolding assms load_data_wastewater_def
    by (auto simp: Let_def split: option.splits sum.splits)
  then show ?thesis
  proof
    assume "df = DataFrame_new"
    then show ?thesis by (simp add: DataFrame_new_def)
  next
    assume "\<exists>df0. dropna df0 = Inr df"
    then obtain df0 where "dropna df0 = Inr df" ..
    from dropna_rows [OF this] show ?thesis by blast
  qed
qed

lemma counts_of_groups:
  assumes "\<forall>r\<in>set rs. Latitude r \<noteq> None \<and> Longitude r \<noteq> None"
  shows "sum_list (map samples (map (\<lambda>k. CircleMarker k sz c f l (count_list (group_keys rs) k))
                                    (sort (remdups (group_keys rs))))) = length rs"
    and "\<forall>m\<in>set (map (\<lambda>k. CircleMarker k sz c f l (count_list (group_keys rs) k))
                       (sort (remdups (group_keys rs)))). 1 \<le> samples m"
proof -
  have "sum_list (map samples (map (\<lambda>k. CircleMarker k sz c f l (count_list (group_keys rs) k))
                                    (sort (remdups (group_keys rs)))))
        = sum_list (map (count_list (group_keys rs)) (sort (remdups (group_keys rs))))"
    by (simp add: o_def)
  also have "\<dots> = length (group_keys rs)" by (rule sum_counts)
  also have "\<dots> = length rs" by (rule group_keys_all [OF assms])
  finally show "sum_list (map samples (map (\<lambda>k. CircleMarker k sz c f l (count_list (group_keys rs) k))
                                    (sort (remdups (group_keys rs))))) = length rs" .
  show "\<forall>m\<in>set (map (\<lambda>k. CircleMarker k sz c f l (count_list (group_keys rs) k))
                       (sort (remdups (group_keys rs)))). 1 \<le> samples m"
    using count_pos [of _ "group_keys rs"] by fastforce
qed

lemma add_markers_counts:
  assumes "rows df = [] \<or> set coord_cols \<subseteq> set (columns df)"
    and "\<forall>r\<in>set (rows df). Latitude r \<noteq> None \<and> Longitude r \<noteq> None"
  shows "\<exists>ms. add_markers df c f l [] = Inr ms
           \<and> (\<forall>m\<in>set ms. 1 \<le> samples m)
           \<and> sum_list (map samples ms) = length (rows df)"
proof (cases "rows df = []")
  case True
  then show ?thesis by (simp add: add_markers_def df_empty_def)
next
  case False
  with assms(1) have cols: "set coord_cols \<subseteq> set (columns df)" by simp
  show ?thesis
    unfolding add_markers_eq [OF cols]
    using counts_of_groups [OF assms(2), of 4 c f l] by simp
qed

lemma add_markers_and_radius_counts:
  assumes "rows df = [] \<or> set coord_cols \<subseteq> set (columns df)"
    and "\<forall>r\<in>set (rows df). Latitude r \<noteq> None \<and> Longitude r \<noteq> None"
  shows "\<exists>ms. add_markers_and_radius rk df c f l dc sz wr [] = Inr ms
           \<and> (\<forall>m\<in>set (filter is_marker ms). 1 \<le> samples m)
           \<and> sum_list (map samples (filter is_marker ms)) = length (rows df)"
proof (cases "rows df = []")
  case True
  then show ?thesis by (simp add: add_markers_and_radius_def df_empty_def)
next
  case False
  with assms(1) have cols: "set coord_cols \<subseteq> set (columns df)" by simp
  obtain ms where b: "add_markers_and_radius rk df c f l dc sz wr [] = Inr ms"
    and fm: "filter is_marker ms =
               map (\<lambda>k. CircleMarker k sz c f l (count_list (group_keys (rows df)) k))
                   (sort (remdups (group_keys (rows df))))"
    using add_markers_and_radius_eq [OF cols] by blast
  show ?thesis
  proof (intro exI conjI)
    show "add_markers_and_radius rk df c f l dc sz wr [] = Inr ms" by (rule b)
    show "\<forall>m\<in>set (filter is_marker ms). 1 \<le> samples m"
      unfolding fm by (rule counts_of_groups(2) [OF assms(2)])
    show "sum_list (map samples (filter is_marker ms)) = length (rows df)"
      unfolding fm by (rule counts_of_groups(1) [OF assms(2)])
  qed
qed

lemma load_a: "load_data files_a ''TRAINING_SET.csv'' = Inr stations_a"
  by (simp add: load_data_def read_csv_def files_a_def dropna_def stations_a_def
        coord_cols_def mk_row_def)

lemma load_a_ww: "fst (load_data_wastewater files_a ''TRAINING_SET.csv'') = stations_a"
  by (simp add: load_data_wastewater_def resolve_path_def endswith_def read_csv_def files_a_def
        dropna_def stations_a_def coord_cols_def mk_row_def strip_def whitespace_def)

text \<open>
  C10. Aggregation conserves rows. For every table that \<^verbatim>\<open>load_data\<close> returns, in
  \<^verbatim>\<open>app.py\<close> and in \<^verbatim>\<open>app_wastewater.py\<close>, the markers drawn from it each count at
  least one row, and their counts add up to the number of rows of the table.
\<close>

theorem counts_conserve_rows:
  assumes "load_data fs p = Inr df" and "df' = fst (load_data_wastewater fs p')"
  shows "(\<exists>ms. add_markers df c f l [] = Inr ms
            \<and> (\<forall>m\<in>set ms. 1 \<le> samples m)
            \<and> sum_list (map samples ms) = length (rows df))
       \<and> (\<exists>ms. add_markers_and_radius rk df' c f l dc sz wr [] = Inr ms
            \<and> (\<forall>m\<in>set (filter is_marker ms). 1 \<le> samples m)
            \<and> sum_list (map samples (filter is_marker ms)) = length (rows df'))"
proof
  from load_data_rows [OF assms(1)]
  show "\<exists>ms. add_markers df c f l [] = Inr ms
            \<and> (\<forall>m\<in>set ms. 1 \<le> samples m)
            \<and> sum_list (map samples ms) = length (rows df)"
    using add_markers_counts by blast
  from load_data_wastewater_rows [OF assms(2)]
  show "\<exists>ms. add_markers_and_radius rk df' c f l dc sz wr [] = Inr ms
            \<and> (\<forall>m\<in>set (filter is_marker ms). 1 \<le> samples m)
            \<and> sum_list (map samples (filter is_marker ms)) = length (rows df')"
    using add_markers_and_radius_counts by blast
qed

text \<open>The theorem at the table \<open>[(1,2), (1,2), (3,4)]\<close>, read from a file: two
  markers with the counts 2 and 1, three rows.\<close>

theorem counts_conserve_rows_witness:
  "load_data files_a ''TRAINING_SET.csv'' = Inr stations_a
   \<and> stations_a = fst (load_data_wastewater files_a ''TRAINING_SET.csv'')
   \<and> add_markers stations_a ''dodgerblue'' ''cyan'' ''Training'' [] =
       Inr [CircleMarker (1, 2) 4 ''dodgerblue'' ''cyan'' ''Training'' 2,
            CircleMarker (3, 4) 4 ''dodgerblue'' ''cyan'' ''Training'' 1]
   \<and> (\<exists>ms. add_markers stations_a ''dodgerblue'' ''cyan'' ''Training'' [] = Inr ms
          \<and> sum_list (map samples ms) = 3)
   \<and> (\<exists>ms. add_markers_and_radius 5 stations_a ''dodgerblue'' ''cyan'' ''Training''
               None 5 True [] = Inr ms
          \<and> sum_list (map samples (filter is_marker ms)) = 3)"
proof -
  have e: "add_markers stations_a ''dodgerblue'' ''cyan'' ''Training'' [] =
       Inr [CircleMarker (1, 2) 4 ''dodgerblue'' ''cyan'' ''Training'' 2,
            CircleMarker (3, 4) 4 ''dodgerblue'' ''cyan'' ''Training'' 1]"
    by (simp add: add_markers_def groupby_size_def df_empty_def stations_a_def mk_row_def
         coord_cols_def group_keys_def coord_key_def)
  have n: "length (rows stations_a) = 3" by (simp add: stations_a_def)
  from counts_conserve_rows [OF load_a load_a_ww [symmetric],
         where c = "''dodgerblue''" and f = "''cyan''" and l = "''Training''"
           and rk = 5 and dc = None and sz = 5 and wr = True]
  have "(\<exists>ms. add_markers stations_a ''dodgerblue'' ''cyan'' ''Training'' [] = Inr ms
          \<and> sum_list (map samples ms) = 3)
   \<and> (\<exists>ms. add_markers_and_radius 5 stations_a ''dodgerblue'' ''cyan'' ''Training''
               None 5 True [] = Inr ms
          \<and> sum_list (map samples (filter is_marker ms)) = 3)"
    unfolding n by blast
  with load_a load_a_ww e show ?thesis by simp
qed

section \<open>River colours\<close>

lemma set_unique_by: "set (unique_by f xs) \<subseteq> set xs"
  by (induction f xs rule: unique_by.induct) auto

lemma keys_unique_by: "f ` set (unique_by f xs) = f ` set xs"
proof (induction f xs rule: unique_by.induct)
  case (1 f)
  show ?case by simp
next
  case (2 f x xs)
  have "f ` set (x # xs) = insert (f x) (f ` set (filter (\<lambda>y. f y \<noteq> f x) xs))"
    by auto
  with 2 show ?case by simp
qed

lemma distinct_unique_by: "distinct (map f (unique_by f xs))"
proof (induction f xs rule: unique_by.induct)
  case (1 f)
  show ?case by simp
next
  case (2 f x xs)
  have "f x \<notin> f ` set (unique_by f (filter (\<lambda>y. f y \<noteq> f x) xs))"
    unfolding keys_unique_by by auto
  with 2 show ?case by simp
qed

lemma distinct_unique: "distinct (unique xs)"
  using distinct_unique_by [of "\<lambda>x. x" xs] by (simp add: unique_def)

lemma set_unique: "set (unique xs) = set xs"
  using keys_unique_by [of "\<lambda>x. x" xs] by (simp add: unique_def)

lemma fold_assign_other:
  "k \<notin> snd ` set ps \<Longrightarrow> fold (\<lambda>(i, riv_id) m. m(riv_id \<mapsto> g i)) ps m k = m k"
  by (induction ps arbitrary: m) (auto simp: image_iff)

lemma fold_assign:
  "distinct (map snd ps) \<Longrightarrow> (i, k) \<in> set ps \<Longrightarrow>
     fold (\<lambda>(i, riv_id) m. m(riv_id \<mapsto> g i)) ps m k = Some (g i)"
proof (induction ps arbitrary: m)
  case Nil
  then show ?case by simp
next
  case (Cons p ps)
  show ?case
  proof (cases "p = (i, k)")
    case True
    with Cons.prems have "k \<notin> snd ` set ps" by auto
    then have "fold (\<lambda>(i, riv_id) m. m(riv_id \<mapsto> g i)) ps (m(k \<mapsto> g i)) k = Some (g i)"
      by (simp add: fold_assign_other)
    with True show ?thesis by (simp del: fun_upd_apply)
  next
    case False
    with Cons show ?thesis by auto
  qed
qed

lemma river_color_map_nth:
  assumes "i < length (unique main_riv)"
  shows "river_color_map main_riv (unique main_riv ! i) = Some (tab20 ! (i mod 20))"
proof -
  have d: "distinct (map snd (enumerate 0 (unique main_riv)))"
    by (simp add: distinct_unique)
  have m: "(i, unique main_riv ! i) \<in> set (enumerate 0 (unique main_riv))"
    using assms by (simp add: in_set_enumerate_eq)
  show ?thesis
    unfolding river_color_map_def
    using fold_assign [OF d m, of "\<lambda>i. tab20 ! (i mod 20)" Map.empty] by simp
qed

lemma river_color_map_None:
  assumes "k \<notin> set main_riv"
  shows "river_color_map main_riv k = None"
proof -
  have "k \<notin> snd ` set (enumerate 0 (unique main_riv))"
    using assms by (metis list.set_map map_snd_enumerate set_unique)
  then show ?thesis
    unfolding river_color_map_def by (simp add: fold_assign_other)
qed

lemma dom_river_color_map: "dom (river_color_map main_riv) = set main_riv"
proof
  show "dom (river_color_map main_riv) \<subseteq> set main_riv"
    using river_color_map_None by fastforce
  show "set main_riv \<subseteq> dom (river_color_map main_riv)"
  proof
    fix k assume "k \<in> set main_riv"
    then have "k \<in> set (unique main_riv)" by (simp add: set_unique)
    then obtain i where "i < length (unique main_riv)" "unique main_riv ! i = k"
      by (auto simp: in_set_conv_nth)
    with river_color_map_nth [of i main_riv] show "k \<in> dom (river_color_map main_riv)"
      by auto
  qed
qed

text \<open>
  C3. The colour map is a function of the column of river identifiers alone: its keys
  are the identifiers of the column, the \<open>i\<close>-th distinct identifier in order of
  first appearance (counted from 0) gets the colour \<open>i mod 20\<close> of the twenty colours of
  \<^verbatim>\<open>tab20\<close>, and two identifiers whose positions differ by a multiple of 20 get the
  same colour.
\<close>

theorem river_colors_cycle:
  "dom (river_color_map main_riv) = set main_riv
   \<and> (\<forall>i. i < length (unique main_riv) \<longrightarrow>
          river_color_map main_riv (unique main_riv ! i) = Some (tab20 ! (i mod 20)))
   \<and> (\<forall>i k. i + 20 * k < length (unique main_riv) \<longrightarrow>
          river_color_map main_riv (unique main_riv ! (i + 20 * k)) =
          river_color_map main_riv (unique main_riv ! i))"
proof (intro conjI allI impI)
  show "dom (river_color_map main_riv) = set main_riv" by (rule dom_river_color_map)
next
  fix i assume "i < length (unique main_riv)"
  then show "river_color_map main_riv (unique main_riv ! i) = Some (tab20 ! (i mod 20))"
    by (rule river_color_map_nth)
next
  fix i k assume a: "i + 20 * k < length (unique main_riv)"
  then have b: "i < length (unique main_riv)" by simp
  show "river_color_map main_riv (unique main_riv ! (i + 20 * k)) =
          river_color_map main_riv (unique main_riv ! i)"
    by (simp add: river_color_map_nth [OF a] river_color_map_nth [OF b])
qed

lemma unique_many_rivers:
  "unique many_rivers = [7, 3, 11, 12, 13, 14, 15, 16, 17, 18, 19, 20, 21, 22, 23, 24, 25,
                         26, 27, 28, 29, 30, 31]"
  by (simp add: unique_def many_rivers_def)

text \<open>The theorem on a column with 23 distinct identifiers: the first and the
  twenty-first share the first colour of the palette.\<close>

theorem river_colors_cycle_witness:
  "(20::nat) < length (unique many_rivers)
   \<and> unique many_rivers ! 0 = 7 \<and> unique many_rivers ! 20 = 29
   \<and> river_color_map many_rivers 7 = Some ''#1f77b4''
   \<and> river_color_map many_rivers 29 = Some ''#1f77b4''
   \<and> river_color_map many_rivers 3 = Some ''#aec7e8''"
proof -
  have n: "(0::nat) < length (unique many_rivers)" "(1::nat) < length (unique many_rivers)"
    "(20::nat) < length (unique many_rivers)" "0 + 20 * 1 < length (unique many_rivers)"
    by (simp_all add: unique_many_rivers)
  have p: "unique many_rivers ! 0 = 7" "unique many_rivers ! 1 = 3"
    "unique many_rivers ! 20 = 29" "unique many_rivers ! (0 + 20 * 1) = 29"
    by (simp_all add: unique_many_rivers)
  have c: "tab20 ! (0 mod 20) = ''#1f77b4''" "tab20 ! (1 mod 20) = ''#aec7e8''"
    by (simp_all add: tab20_def)
  from river_colors_cycle [of many_rivers]
  have a: "\<forall>i. i < length (unique many_rivers) \<longrightarrow>
             river_color_map many_rivers (unique many_rivers ! i) = Some (tab20 ! (i mod 20))"
    and b: "\<forall>i k. i + 20 * k < length (unique many_rivers) \<longrightarrow>
             river_color_map many_rivers (unique many_rivers ! (i + 20 * k)) =
             river_color_map many_rivers (unique many_rivers ! i)"
    by blast+
  from a n(1) have c0: "river_color_map many_rivers (unique many_rivers ! 0) = Some (tab20 ! (0 mod 20))"
    by blast
  from a n(2) have c1: "river_color_map many_rivers (unique many_rivers ! 1) = Some (tab20 ! (1 mod 20))"
    by blast
  from b n(4) have c20: "river_color_map many_rivers (unique many_rivers ! (0 + 20 * 1)) =
             river_color_map many_rivers (unique many_rivers ! 0)"
    by blast
  from c0 c1 c20 show ?thesis
    unfolding p c using n(3) by simp
qed

text \<open>
  C7. An identifier that is not a key of the colour map is drawn in the one default
  colour of the script, \<^verbatim>\<open>#87CEFA\<close> in \<^verbatim>\<open>app.py\<close> and \<^verbatim>\<open>#00FFFF\<close> in
  \<^verbatim>\<open>app_wastewater.py\<close>, and neither default is one of the twenty palette colours.
\<close>

theorem default_color_outside_palette:
  "(k \<notin> dom cm \<longrightarrow> style_color cm k = ''#87CEFA'' \<and> style_color_wastewater cm k = ''#00FFFF'')
   \<and> ''#87CEFA'' \<notin> set tab20 \<and> ''#00FFFF'' \<notin> set tab20
   \<and> length tab20 = 20"
  by (auto simp: style_color_def style_color_wastewater_def tab20_def)

text \<open>The theorem at the column \<open>[A, B]\<close> and the identifier \<open>Z\<close>.\<close>

theorem default_color_outside_palette_witness:
  "''Z'' \<notin> dom (river_color_map [''A'', ''B''])
   \<and> river_color_map [''A'', ''B''] ''A'' = Some ''#1f77b4''
   \<and> style_color (river_color_map [''A'', ''B'']) ''Z'' = ''#87CEFA''
   \<and> style_color_wastewater (river_color_map [''A'', ''B'']) ''Z'' = ''#00FFFF''
   \<and> ''#87CEFA'' \<notin> set tab20 \<and> ''#00FFFF'' \<notin> set tab20"
proof -
  have h: "''Z'' \<notin> dom (river_color_map [''A'', ''B''])"
    by (simp add: dom_river_color_map)
  have a: "river_color_map [''A'', ''B''] ''A'' = Some ''#1f77b4''"
    by (simp add: river_color_map_def unique_def tab20_def)
  from default_color_outside_palette [of "''Z''" "river_color_map [''A'', ''B'']"] h a
  show ?thesis by blast
qed

section \<open>The river layer\<close>

text \<open>
  The identifier \<open>NaN\<close> takes the second palette position, so the third feature
  gets the third colour; the feature with the null identifier is looked up as
  \<^verbatim>\<open>None\<close>, which is no key of the dictionary, and is drawn in the default colour.
\<close>

lemma add_rivers_null:
  "add_rivers style_function True (Some rivers_null) [] =
     Inr [GeoJson [''MAIN_RIV'', ''ORD_STRA'']
            [Inr (''#1f77b4'', 1), Inr (''#87CEFA'', 1 / 2), Inr (''#ff7f0e'', 1 / 4)]]"
  by (simp add: add_rivers_def rivers_null_def river_color_map_def unique_def tab20_def
        style_function_def style_color_def to_property_def ord_stra_def)

text \<open>A river table without \<^verbatim>\<open>ORD_STRA\<close> gets the weight of order 1 from the style
  function, and the tooltip fails when the map is rendered.\<close>

lemma st_folium_no_order:
  "on_result (add_rivers style_function True (Some rivers_no_order) []) st_folium =
     Inl AssertionError"
  by (simp add: add_rivers_def rivers_no_order_def rivers_null_def river_color_map_def
        unique_def tab20_def style_function_def style_color_def to_property_def ord_stra_def
        on_result_def st_folium_def render_def List.map_filter_simps)

section \<open>The display cap\<close>

lemma example_choice_draws:
  "\<forall>g M n. n \<le> M \<longrightarrow>
     length (example_choice g M n) = n \<and> distinct (example_choice g M n)
     \<and> set (example_choice g M n) \<subseteq> {..<M}"
  by (auto simp: example_choice_def)

text \<open>
  C4. For a cap \<open>max_points \<ge> 0\<close> and a generator whose \<open>choice\<close> draws \<open>n\<close>
  distinct positions below \<open>M\<close> whenever \<open>n \<le> M\<close> (numpy's \<^verbatim>\<open>choice\<close> with
  \<^verbatim>\<open>replace=False\<close>), the table that is drawn has \<open>min M max_points\<close> rows, where
  \<open>M\<close> is the number of rows of the input. When \<open>M \<le> max_points\<close> it is the input
  itself; otherwise its rows are the rows of the input at \<open>max_points\<close> distinct
  positions.
\<close>

theorem display_df_bound:
  assumes "0 \<le> max_points"
    and "\<forall>g M n. n \<le> M \<longrightarrow>
           length (choice g M n) = n \<and> distinct (choice g M n) \<and> set (choice g M n) \<subseteq> {..<M}"
  shows "\<exists>d. display_df seed_rng choice g df max_points = Inr d
           \<and> length (rows d) = min (length (rows df)) (nat max_points)
           \<and> (length (rows df) \<le> nat max_points \<longrightarrow> d = df)
           \<and> (nat max_points < length (rows df) \<longrightarrow>
                columns d = columns df
                \<and> (\<exists>idx. length idx = nat max_points \<and> distinct idx
                       \<and> set idx \<subseteq> {..<length (rows df)}
                       \<and> rows d = map (\<lambda>i. rows df ! i) idx))"
proof (cases "int (length (rows df)) > max_points")
  case False
  with assms(1) have "length (rows df) \<le> nat max_points" by simp
  with False show ?thesis by (simp add: display_df_def)
next
  case True
  let ?idx = "choice (seed_rng 42) (length (rows df)) (nat max_points)"
  from True assms(1) have lt: "nat max_points < length (rows df)" by simp
  then have "nat max_points \<le> length (rows df)" by simp
  with assms(2) have c: "length ?idx = nat max_points" "distinct ?idx"
    "set ?idx \<subseteq> {..<length (rows df)}" by blast+
  have e: "display_df seed_rng choice g df max_points =
             Inr (df\<lparr>rows := map (\<lambda>i. rows df ! i) ?idx\<rparr>)"
    using True assms(1) by (simp add: display_df_def sample_def)
  show ?thesis
  proof (intro exI conjI impI)
    show "display_df seed_rng choice g df max_points =
             Inr (df\<lparr>rows := map (\<lambda>i. rows df ! i) ?idx\<rparr>)" by (rule e)
    show "length (rows (df\<lparr>rows := map (\<lambda>i. rows df ! i) ?idx\<rparr>)) =
            min (length (rows df)) (nat max_points)"
      using c(1) lt by simp
    show "df\<lparr>rows := map (\<lambda>i. rows df ! i) ?idx\<rparr> = df"
      if "length (rows df) \<le> nat max_points"
      using that lt by simp
    show "columns (df\<lparr>rows := map (\<lambda>i. rows df ! i) ?idx\<rparr>) = columns df" by simp
    show "length ?idx = nat max_points" by (rule c(1))
    show "distinct ?idx" by (rule c(2))
    show "set ?idx \<subseteq> {..<length (rows df)}" by (rule c(3))
    show "rows (df\<lparr>rows := map (\<lambda>i. rows df ! i) ?idx\<rparr>) = map (\<lambda>i. rows df ! i) ?idx"
      by simp
  qed
qed

text \<open>The theorem with the example generator: a table of two rows under the cap 5
  is returned as it is, a table of three rows under the cap 2 gives two rows.\<close>

theorem display_df_bound_witness:
  "(0::int) \<le> 2
   \<and> display_df example_seed example_choice 1 stations_b 5 = Inr stations_b
   \<and> display_df example_seed example_choice 1 stations_a 2 =
       Inr \<lparr>columns = [''Latitude'', ''Longitude''], rows = [mk_row 1 2, mk_row 1 2]\<rparr>
   \<and> (\<exists>d. display_df example_seed example_choice 1 stations_a 2 = Inr d
          \<and> length (rows d) = min (length (rows stations_a)) (nat 2))"
proof -
  have h: "(0::int) \<le> 2" by simp
  have ch: "example_choice (example_seed 42) (Suc (Suc (Suc 0))) 2 = [0, Suc 0]"
    by code_simp
  have a: "display_df example_seed example_choice 1 stations_b 5 = Inr stations_b"
    by (simp add: display_df_def stations_b_def)
  have b: "display_df example_seed example_choice 1 stations_a 2 =
       Inr \<lparr>columns = [''Latitude'', ''Longitude''], rows = [mk_row 1 2, mk_row 1 2]\<rparr>"
    by (simp add: display_df_def sample_def stations_a_def ch)
  from display_df_bound [OF h example_choice_draws, of example_seed 1 stations_a]
  have "\<exists>d. display_df example_seed example_choice 1 stations_a 2 = Inr d
          \<and> length (rows d) = min (length (rows stations_a)) (nat 2)" by blast
  with h a b show ?thesis by blast
qed

text \<open>
  C5. The drawn table does not depend on the state of the global generator: the
  script passes \<^verbatim>\<open>random_state=42\<close>, so two runs on the same table and cap draw the
  same rows, whatever was drawn before.
\<close>

theorem display_df_reproducible:
  "display_df seed_rng choice g1 df max_points = display_df seed_rng choice g2 df max_points"
  by (simp add: display_df_def sample_def)

text \<open>Without the seed the draw does depend on the global state, as the example
  generator shows; with it, it does not.\<close>

lemma sample_unseeded_differs:
  "sample example_seed example_choice 0 stations_a 1 None
     \<noteq> sample example_seed example_choice 1 stations_a 1 None"
  by (simp add: sample_def stations_a_def example_choice_def mk_row_def)

theorem display_df_reproducible_witness:
  "display_df example_seed example_choice 0 stations_a 1 =
     display_df example_seed example_choice 1 stations_a 1
   \<and> sample example_seed example_choice 0 stations_a 1 None
       \<noteq> sample example_seed example_choice 1 stations_a 1 None"
  using display_df_reproducible [of example_seed example_choice 0 stations_a 1 1]
    sample_unseeded_differs by blast

section \<open>Unique stations across the two files\<close>

lemma unique_by_first:
  "x \<in> set (unique_by f xs) \<Longrightarrow> find (\<lambda>y. f y = f x) xs = Some x"
proof (induction f xs rule: unique_by.induct)
  case (1 f)
  then show ?case by simp
next
  case (2 f y ys)
  show ?case
  proof (cases "x = y")
    case True
    then show ?thesis by simp
  next
    case False
    with "2.prems" have m: "x \<in> set (unique_by f (filter (\<lambda>z. f z \<noteq> f y) ys))" by simp
    then have "x \<in> set (filter (\<lambda>z. f z \<noteq> f y) ys)"
      using set_unique_by by fastforce
    then have ne: "f x \<noteq> f y" by simp
    from "2.IH" [OF m] have "find (\<lambda>z. f z = f x) (filter (\<lambda>z. f z \<noteq> f y) ys) = Some x" .
    moreover have "find (\<lambda>z. f z = f x) (filter (\<lambda>z. f z \<noteq> f y) ys) = find (\<lambda>z. f z = f x) ys"
      using ne by (induction ys) auto
    ultimately show ?thesis using ne by auto
  qed
qed

lemma find_in_first:
  "k \<in> f ` set xs \<Longrightarrow> find (\<lambda>y. f y = k) (xs @ ys) = Some x \<Longrightarrow> x \<in> set xs"
  by (induction xs) (auto split: if_splits)

lemma find_in_second:
  "k \<notin> f ` set xs \<Longrightarrow> find (\<lambda>y. f y = k) (xs @ ys) = Some x \<Longrightarrow> x \<in> set ys"
  by (induction xs) (auto split: if_splits simp: find_Some_iff in_set_conv_nth)

lemma combined_both:
  assumes "read_csv fs ''TRAINING_SET.csv'' = Inr tr"
    and "read_csv fs ''VALIDATION_SET.csv'' = Inr va"
    and "set coord_cols \<subseteq> set (columns tr)" and "set coord_cols \<subseteq> set (columns va)"
  shows "fold (load_one fs) files DataFrame_new =
           \<lparr>columns = [''Latitude'', ''Longitude'', ''Source''],
            rows = map (tag ''Training Set'') (rows tr) @ map (tag ''Validation Set'') (rows va)\<rparr>"
  using assms by (simp add: files_def load_one_def concat_df_def DataFrame_new_def tag_def)

lemma drop_duplicates_rows:
  assumes "set coord_cols \<subseteq> set (columns df)"
  shows "drop_duplicates df = Inr (df\<lparr>rows := unique_by station_key (rows df)\<rparr>)"
proof (cases "rows df = []")
  case True
  then have "df\<lparr>rows := unique_by station_key (rows df)\<rparr> = df" by simp
  with True assms show ?thesis by (simp add: drop_duplicates_def df_empty_def)
next
  case False
  with assms show ?thesis by (auto simp: drop_duplicates_def df_empty_def coord_cols_def)
qed

text \<open>
  C2, as the script has it. When both files load and have the coordinate columns,
  \<^verbatim>\<open>load_unique_data\<close> returns one row for each distinct pair of coordinates over
  the two files together, in the order of first appearance in the training rows
  followed by the validation rows. The source of a row is \<^verbatim>\<open>Training Set\<close> when its
  pair occurs in the training file, also when it occurs in both, and
  \<^verbatim>\<open>Validation Set\<close> otherwise. The result has the columns \<^verbatim>\<open>Latitude\<close>,
  \<^verbatim>\<open>Longitude\<close> and \<^verbatim>\<open>Source\<close>: \<^verbatim>\<open>drop_duplicates\<close> counts nothing.
\<close>

theorem load_unique_data_first_source:
  assumes "read_csv fs ''TRAINING_SET.csv'' = Inr tr"
    and "read_csv fs ''VALIDATION_SET.csv'' = Inr va"
    and "set coord_cols \<subseteq> set (columns tr)" and "set coord_cols \<subseteq> set (columns va)"
  shows "\<exists>d. load_unique_data fs = Inr d
           \<and> columns d = [''Latitude'', ''Longitude'', ''Source'']
           \<and> rows d = unique_by station_key
                         (map (tag ''Training Set'') (rows tr) @ map (tag ''Validation Set'') (rows va))
           \<and> distinct (map station_key (rows d))
           \<and> station_key ` set (rows d) =
               (\<lambda>r. (Latitude r, Longitude r)) ` (set (rows tr) \<union> set (rows va))
           \<and> (\<forall>s\<in>set (rows d).
                 if station_key s \<in> (\<lambda>r. (Latitude r, Longitude r)) ` set (rows tr)
                 then Source s = ''Training Set'' else Source s = ''Validation Set'')"
proof -
  let ?T = "map (tag ''Training Set'') (rows tr)"
  let ?V = "map (tag ''Validation Set'') (rows va)"
  let ?d = "\<lparr>columns = [''Latitude'', ''Longitude'', ''Source''],
             rows = unique_by station_key (?T @ ?V)\<rparr>"
  have kt: "station_key ` set ?T = (\<lambda>r. (Latitude r, Longitude r)) ` set (rows tr)"
    by (auto simp: station_key_def tag_def image_iff)
  have kv: "station_key ` set ?V = (\<lambda>r. (Latitude r, Longitude r)) ` set (rows va)"
    by (auto simp: station_key_def tag_def image_iff)
  have e: "load_unique_data fs = Inr ?d"
    unfolding load_unique_data_def combined_both [OF assms]
    by (simp add: drop_duplicates_rows coord_cols_def)
  have keys: "station_key ` set (rows ?d) =
               (\<lambda>r. (Latitude r, Longitude r)) ` (set (rows tr) \<union> set (rows va))"
    using keys_unique_by [of station_key "?T @ ?V"] kt kv by (simp add: image_Un)
  have src: "\<forall>s\<in>set (rows ?d).
                 if station_key s \<in> (\<lambda>r. (Latitude r, Longitude r)) ` set (rows tr)
                 then Source s = ''Training Set'' else Source s = ''Validation Set''"
  proof
    fix s assume "s \<in> set (rows ?d)"
    then have f: "find (\<lambda>y. station_key y = station_key s) (?T @ ?V) = Some s"
      using unique_by_first [of s station_key "?T @ ?V"] by simp
    show "if station_key s \<in> (\<lambda>r. (Latitude r, Longitude r)) ` set (rows tr)
          then Source s = ''Training Set'' else Source s = ''Validation Set''"
    proof (cases "station_key s \<in> station_key ` set ?T")
      case True
      from find_in_first [OF True f] have "Source s = ''Training Set''"
        by (auto simp: tag_def)
      with True kt show ?thesis by simp
    next
      case False
      from find_in_second [OF False f] have "Source s = ''Validation Set''"
        by (auto simp: tag_def)
      with False kt show ?thesis by simp
    qed
  qed
  show ?thesis
  proof (intro exI conjI)
    show "load_unique_data fs = Inr ?d" by (rule e)
    show "distinct (map station_key (rows ?d))" by (simp add: distinct_unique_by)
    show "station_key ` set (rows ?d) =
               (\<lambda>r. (Latitude r, Longitude r)) ` (set (rows tr) \<union> set (rows va))" by (rule keys)
    show "\<forall>s\<in>set (rows ?d).
                 if station_key s \<in> (\<lambda>r. (Latitude r, Longitude r)) ` set (rows tr)
                 then Source s = ''Training Set'' else Source s = ''Validation Set''" by (rule src)
  qed simp_all
qed

lemma read_tv:
  "read_csv files_tv ''TRAINING_SET.csv'' = Inr one_station"
  "read_csv files_tv ''VALIDATION_SET.csv'' = Inr one_station"
  "set coord_cols \<subseteq> set (columns one_station)"
  by (simp_all add: read_csv_def files_tv_def one_station_def coord_cols_def)

text \<open>The theorem at the training table \<open>[(1,1)]\<close> and the validation table
  \<open>[(1,1)]\<close>: one row, from the training set.\<close>

theorem load_unique_data_first_source_witness:
  "read_csv files_tv ''TRAINING_SET.csv'' = Inr one_station
   \<and> read_csv files_tv ''VALIDATION_SET.csv'' = Inr one_station
   \<and> set coord_cols \<subseteq> set (columns one_station)
   \<and> (\<exists>d. load_unique_data files_tv = Inr d
          \<and> rows d = [\<lparr>Lat = Some 1, Lon = Some 1, Source = ''Training Set''\<rparr>])"
proof -
  from load_unique_data_first_source [OF read_tv(1) read_tv(2) read_tv(3) read_tv(3)]
  obtain d where "load_unique_data files_tv = Inr d"
    and "rows d = unique_by station_key
                    (map (tag ''Training Set'') (rows one_station)
                     @ map (tag ''Validation Set'') (rows one_station))"
    by blast
  then have "load_unique_data files_tv = Inr d
          \<and> rows d = [\<lparr>Lat = Some 1, Lon = Some 1, Source = ''Training Set''\<rparr>]"
    by (simp add: one_station_def tag_def mk_row_def station_key_def)
  with read_tv show ?thesis by blast
qed
text \<open>
  C2 as stated gives that location the count 2. The table returned has one row
  with the source \<^verbatim>\<open>Training Set\<close> and no column \<^verbatim>\<open>Count\<close>.
\<close>

theorem load_unique_data_no_count_counterexample:
  "load_unique_data files_tv =
     Inr \<lparr>columns = [''Latitude'', ''Longitude'', ''Source''],
          rows = [\<lparr>Lat = Some 1, Lon = Some 1, Source = ''Training Set''\<rparr>]\<rparr>
   \<and> ''Count'' \<notin> set [''Latitude'', ''Longitude'', ''Source'']"
  by (simp add: load_unique_data_def files_def load_one_def read_tv concat_df_def
        DataFrame_new_def drop_duplicates_def df_empty_def one_station_def mk_row_def
        station_key_def coord_cols_def tag_def)

section \<open>Tables without the coordinate columns\<close>

lemma strip_Latitude: "strip ''Latitude'' = ''Latitude''" "strip ''Longitude'' = ''Longitude''"
  by (simp_all add: strip_def whitespace_def)

lemma stripped_columns:
  assumes "\<not> set coord_cols \<subseteq> set (map strip cols)"
  shows "\<not> set coord_cols \<subseteq> set cols"
proof
  assume "set coord_cols \<subseteq> set cols"
  then have "''Latitude'' \<in> set cols" "''Longitude'' \<in> set cols"
    by (simp_all add: coord_cols_def)
  then have "strip ''Latitude'' \<in> set (map strip cols)" "strip ''Longitude'' \<in> set (map strip cols)"
    by simp_all
  with assms show False by (simp add: strip_Latitude coord_cols_def)
qed

lemma load_one_ok: "combined_ok c \<Longrightarrow> combined_ok (load_one fs sf c)"
  by (auto simp: combined_ok_def load_one_def concat_df_def DataFrame_new_def split: sum.splits)

lemma fold_load_one_ok: "combined_ok c \<Longrightarrow> combined_ok (fold (load_one fs) fl c)"
  by (induction fl arbitrary: c) (simp_all add: load_one_ok)

lemma drop_duplicates_ok:
  assumes "combined_ok c"
  shows "\<exists>d. drop_duplicates c = Inr d \<and> (rows c = [] \<longrightarrow> rows d = [])"
proof (cases "c = DataFrame_new")
  case True
  then show ?thesis by (simp add: drop_duplicates_def df_empty_def DataFrame_new_def)
next
  case False
  with assms have "set coord_cols \<subseteq> set (columns c)"
    by (simp add: combined_ok_def coord_cols_def)
  from drop_duplicates_rows [OF this] show ?thesis by simp
qed


lemma strip_padded:
  "strip nbsp_Latitude = ''Latitude''"
  "strip Longitude_emsp = ''Longitude''"
  "strip (CHR 0x20 # CHR 0x09 # ''Latitude'' @ [CHR 0x0A]) = ''Latitude''"
  by (simp_all add: strip_def whitespace_def nbsp_Latitude_def Longitude_emsp_def)

text \<open>A header padded with Unicode spaces is stripped, and the table is loaded.\<close>

lemma load_data_wastewater_padded:
  "load_data_wastewater files_padded ''TRAINING_SET.csv'' =
     (\<lparr>columns = [''Latitude'', ''Longitude''], rows = [mk_row 1 2]\<rparr>, None)"
  by (simp add: load_data_wastewater_def resolve_path_def endswith_def read_csv_def
        files_padded_def padded_def strip_padded dropna_def coord_cols_def mk_row_def)








section \<open>Failures of one layer and the other layers\<close>

lemma sort_remdups_Nil: "sort (remdups xs) = [] \<longleftrightarrow> xs = []"
  by (metis set_empty set_remdups set_sort)

lemma st_folium_renders:
  assumes "\<forall>ob\<in>set m. render ob = None"
  shows "st_folium m = Inr m"
proof -
  from assms have "List.map_filter render m = []"
    by (induction m) (simp_all add: List.map_filter_simps)
  then show ?thesis by (simp add: st_folium_def)
qed

lemma add_markers_append:
  assumes "rows df = [] \<or> set coord_cols \<subseteq> set (columns df)"
  shows "\<exists>ms. add_markers df c f l m = Inr (m @ ms)
           \<and> (group_keys (rows df) \<noteq> [] \<longrightarrow> ms \<noteq> [])
           \<and> (\<forall>ob\<in>set ms. render ob = None)"
proof (cases "rows df = []")
  case True
  then show ?thesis by (simp add: add_markers_def df_empty_def group_keys_def)
next
  case False
  with assms have "set coord_cols \<subseteq> set (columns df)" by simp
  from add_markers_eq [OF this] show ?thesis
    by (auto simp: sort_remdups_Nil render_def)
qed

lemma add_markers_and_radius_append:
  assumes "rows df = [] \<or> set coord_cols \<subseteq> set (columns df)"
  shows "\<exists>ms. add_markers_and_radius rk df c f l dc sz wr m = Inr (m @ ms)
           \<and> (group_keys (rows df) \<noteq> [] \<longrightarrow> ms \<noteq> [])
           \<and> (\<forall>ob\<in>set ms. render ob = None)"
proof (cases "rows df = []")
  case True
  then show ?thesis by (simp add: add_markers_and_radius_def df_empty_def group_keys_def)
next
  case False
  with assms have c: "set coord_cols \<subseteq> set (columns df)" by simp
  with False have "\<not> df_empty df" by (auto simp: df_empty_def coord_cols_def)
  moreover have "\<exists>k. k \<in> set (group_keys (rows df))" if "group_keys (rows df) \<noteq> []"
    using that by (cases "group_keys (rows df)") auto
  ultimately show ?thesis
    using c
    by (auto simp: add_markers_and_radius_def groupby_agg_def sort_remdups_Nil render_def)
qed

lemma group_keys_nonempty:
  assumes "rows df \<noteq> []" and "\<forall>r\<in>set (rows df). Latitude r \<noteq> None \<and> Longitude r \<noteq> None"
  shows "group_keys (rows df) \<noteq> []"
  using group_keys_all [OF assms(2)] assms(1) by auto

lemma select_coords_loaded:
  "rows df = [] \<or> set coord_cols \<subseteq> set (columns df) \<Longrightarrow> \<not> df_empty df \<Longrightarrow>
     \<exists>c. select_coords df = Inr c"
  by (auto simp: select_coords_def df_empty_def)

lemma select_all_loaded:
  assumes "\<forall>df\<in>set dfs. rows df = [] \<or> set coord_cols \<subseteq> set (columns df)"
  shows "\<exists>c. select_all (filter (\<lambda>df. \<not> df_empty df) dfs) = Inr c"
  using assms
proof (induction dfs)
  case Nil
  then show ?case by simp
next
  case (Cons df dfs)
  then obtain cs where cs: "select_all (filter (\<lambda>df. \<not> df_empty df) dfs) = Inr cs" by auto
  show ?case
  proof (cases "df_empty df")
    case True
    with cs show ?thesis by simp
  next
    case False
    with Cons.prems obtain c where "select_coords df = Inr c"
      using select_coords_loaded [of df] by auto
    with False cs show ?thesis by (simp add: on_result_def)
  qed
qed

text \<open>
  C8. A load failure in one dataset or layer should leave the other layers drawn.
  \<^verbatim>\<open>app.py\<close> does not keep to this when a station file is missing: with a valid
  training file and no validation file, \<^verbatim>\<open>load_data\<close> returns \<^verbatim>\<open>pd.DataFrame()\<close>
  for the validation set, and \<^verbatim>\<open>df_val[['Latitude', 'Longitude']]\<close> at the centring
  of the map raises \<open>KeyError\<close> before any layer is drawn.
\<close>

theorem app_missing_validation_fails:
  "app files_a True True True = Inl KeyError"
  by (simp add: app_def on_result_def load_data_def read_csv_def files_a_def dropna_def
        stations_a_def coord_cols_def select_coords_def DataFrame_new_def)

text \<open>\<^verbatim>\<open>app_wastewater.py\<close> asks only the tables that are not empty for their
  coordinates, and draws the training markers from the same files.\<close>

lemma app_wastewater_missing_validation:
  "app_wastewater files_a True True True True 0 =
     Inr [CircleMarker (1, 2) 5 ''dodgerblue'' ''cyan'' ''Training Set'' 2,
          CircleMarker (3, 4) 5 ''dodgerblue'' ''cyan'' ''Training Set'' 1]"
proof -
  have t: "load_data_wastewater files_a ''TRAINING_SET.csv'' = (stations_a, None)"
    by (simp add: load_data_wastewater_def resolve_path_def endswith_def read_csv_def files_a_def
        dropna_def stations_a_def coord_cols_def mk_row_def strip_def whitespace_def)
  have v: "load_data_wastewater files_a ''VALIDATION_SET.csv'' = (DataFrame_new, None)"
    by (simp add: load_data_wastewater_def resolve_path_def files_a_def)
  have w: "load_data_wastewater files_a ''Waste_Water.xlsx'' = (DataFrame_new, None)"
    by (simp add: load_data_wastewater_def resolve_path_def files_a_def)
  have r: "load_river_data files_a ''sa_rivers_final.geojson'' = None"
    by (simp add: load_river_data_def read_file_def files_a_def)
  have e: "df_empty (DataFrame_new :: row DataFrame)" "\<not> df_empty stations_a"
    by (simp_all add: df_empty_def DataFrame_new_def stations_a_def)
  have s: "select_coords stations_a = Inr [(Some 1, Some 2), (Some 1, Some 2), (Some 3, Some 4)]"
    by (simp add: select_coords_def stations_a_def coord_cols_def mk_row_def)
  have m: "add_markers_and_radius 0 stations_a ''dodgerblue'' ''cyan'' ''Training Set'' None 5 True [] =
     Inr [CircleMarker (1, 2) 5 ''dodgerblue'' ''cyan'' ''Training Set'' 2,
          CircleMarker (3, 4) 5 ''dodgerblue'' ''cyan'' ''Training Set'' 1]"
    by (simp add: add_markers_and_radius_def groupby_agg_def df_empty_def stations_a_def mk_row_def
         coord_cols_def group_keys_def coord_key_def)
  have n: "add_markers_and_radius rk DataFrame_new c f l dc sz wr ms = Inr ms" for rk c f l dc sz wr ms
    by (simp add: add_markers_and_radius_def e)
  show ?thesis
    by (simp add: app_wastewater_def t v w r e s m n on_result_def add_rivers_def
          st_folium_def render_def List.map_filter_simps)
qed

text \<open>
  The part of C8 about the rivers holds in both scripts: when the river file does not
  load and the station tables have their coordinate columns, the markers of a training
  table with at least one row are drawn.
\<close>

lemma river_failure_isolated_app:
  assumes "load_river_data fs ''sa_rivers_final.geojson'' = None"
    and "load_data fs ''TRAINING_SET.csv'' = Inr tr"
    and "load_data fs ''VALIDATION_SET.csv'' = Inr va"
    and "set coord_cols \<subseteq> set (columns tr)" and "set coord_cols \<subseteq> set (columns va)"
    and "rows tr \<noteq> []"
  shows "\<exists>ms. app fs True show_val show_rivers = Inr ms \<and> ms \<noteq> []"
proof -
  note lt = load_data_rows [OF assms(2)]
  have k: "group_keys (rows tr) \<noteq> []"
    using group_keys_nonempty [OF assms(6)] lt by blast
  obtain m2 where m2: "add_markers tr ''dodgerblue'' ''cyan'' ''Training'' [] = Inr ([] @ m2)"
    and ne: "m2 \<noteq> []" and r2: "\<forall>ob\<in>set m2. render ob = None"
    using add_markers_append [of tr "''dodgerblue''" "''cyan''" "''Training''" "[]"] assms(4) k
    by blast
  obtain m3 where m3: "(if show_val
     then add_markers va ''darkred'' ''red'' ''Validation'' m2
     else Inr m2) = Inr (m2 @ m3)" and r3: "\<forall>ob\<in>set m3. render ob = None"
    using add_markers_append [of va "''darkred''" "''red''" "''Validation''" m2] assms(5)
    by (cases show_val) auto
  have "st_folium (m2 @ m3) = Inr (m2 @ m3)"
    using r2 r3 by (intro st_folium_renders) auto
  then have "app fs True show_val show_rivers = Inr (m2 @ m3)"
    using assms(1-5) m2 m3
    by (simp add: app_def on_result_def select_coords_def add_rivers_def)
  with ne show ?thesis by simp
qed

lemma river_failure_isolated_wastewater:
  assumes "load_river_data fs ''sa_rivers_final.geojson'' = None"
    and "rows (fst (load_data_wastewater fs ''TRAINING_SET.csv'')) \<noteq> []"
  shows "\<exists>ms. app_wastewater fs True show_val show_wastewater show_rivers radius_km = Inr ms
           \<and> ms \<noteq> []"
proof -
  let ?t = "fst (load_data_wastewater fs ''TRAINING_SET.csv'')"
  let ?v = "fst (load_data_wastewater fs ''VALIDATION_SET.csv'')"
  let ?w = "fst (load_data_wastewater fs ''Waste_Water.xlsx'')"
  note lt = load_data_wastewater_rows [OF refl, of fs "''TRAINING_SET.csv''"]
  note lv = load_data_wastewater_rows [OF refl, of fs "''VALIDATION_SET.csv''"]
  note lw = load_data_wastewater_rows [OF refl, of fs "''Waste_Water.xlsx''"]
  obtain cs where cs: "select_all (filter (\<lambda>df. \<not> df_empty df) [?t, ?v, ?w]) = Inr cs"
    using select_all_loaded [of "[?t, ?v, ?w]"] lt lv lw by auto
  have k: "group_keys (rows ?t) \<noteq> []"
    using group_keys_nonempty [OF assms(2)] lt by blast
  obtain m2 where m2: "add_markers_and_radius radius_km ?t ''dodgerblue'' ''cyan''
                        ''Training Set'' None 5 True [] = Inr ([] @ m2)" and ne: "m2 \<noteq> []"
    and r2: "\<forall>ob\<in>set m2. render ob = None"
    using add_markers_and_radius_append [of ?t radius_km "''dodgerblue''" "''cyan''"
            "''Training Set''" None 5 True "[]"] lt k by blast
  obtain m3 where m3: "(if show_val
                 then add_markers_and_radius radius_km ?v ''darkred'' ''red''
                        ''Validation Set'' None 5 True m2
                 else Inr m2) = Inr (m2 @ m3)" and r3: "\<forall>ob\<in>set m3. render ob = None"
    using add_markers_and_radius_append [of ?v radius_km "''darkred''" "''red''"
            "''Validation Set''" None 5 True m2] lv
    by (cases show_val) auto
  obtain m4 where m4: "(if show_wastewater
      then add_markers_and_radius radius_km ?w ''lime'' ''#39FF14''
             ''Waste Water / Dam'' (Some ''Description'') (5 / 4) False (m2 @ m3)
      else Inr (m2 @ m3)) = Inr ((m2 @ m3) @ m4)" and r4: "\<forall>ob\<in>set m4. render ob = None"
    using add_markers_and_radius_append [of ?w radius_km "''lime''" "''#39FF14''"
            "''Waste Water / Dam''" "Some ''Description''" "5 / 4" False "m2 @ m3"] lw
    by (cases show_wastewater) auto
  have "st_folium ((m2 @ m3) @ m4) = Inr ((m2 @ m3) @ m4)"
    using r2 r3 r4 by (intro st_folium_renders) auto
  then have "app_wastewater fs True show_val show_wastewater show_rivers radius_km = Inr ((m2 @ m3) @ m4)"
    using cs m2 m3 m4 assms(1)
    by (simp add: app_wastewater_def Let_def on_result_def add_rivers_def)
  with ne show ?thesis by simp
qed

section \<open>Empty and absent datasets\<close>

lemma load_one_no_rows:
  assumes "rows c = []" and "\<forall>t. read_csv fs (snd sf) = Inr t \<longrightarrow> rows t = []"
  shows "rows (load_one fs sf c) = []"
  using assms by (auto simp: load_one_def concat_df_def split: sum.splits)

lemma fold_load_one_no_rows:
  assumes "rows c = []" and "\<forall>sf\<in>set fl. \<forall>t. read_csv fs (snd sf) = Inr t \<longrightarrow> rows t = []"
  shows "rows (fold (load_one fs) fl c) = []"
  using assms
proof (induction fl arbitrary: c)
  case Nil
  then show ?case by simp
next
  case (Cons sf fl)
  from Cons.prems have "rows (load_one fs sf c) = []"
    using load_one_no_rows [of c fs sf] by simp
  with Cons show ?case by simp
qed

text \<open>
  C9, as the scripts have it. An empty table is a valid input of the aggregation
  functions: \<^verbatim>\<open>add_markers\<close> and \<^verbatim>\<open>add_markers_and_radius\<close> return without an
  exception and add nothing to the map, and when every station file is absent,
  unreadable or without rows, \<^verbatim>\<open>load_unique_data\<close> returns a table without rows.
  \<^verbatim>\<open>app_satelite.py\<close> then treats that empty result as a failure of its own: it
  shows an error and stops.
\<close>

theorem empty_dataset_accepted_then_stopped:
  "(df_empty df \<longrightarrow>
      add_markers df c f l m = Inr m
      \<and> add_markers_and_radius rk df c f l dc sz wr m = Inr m)
   \<and> ((\<forall>sf\<in>set files. \<forall>t. read_csv fs (snd sf) = Inr t \<longrightarrow> rows t = []) \<longrightarrow>
        (\<exists>d. load_unique_data fs = Inr d \<and> rows d = []
             \<and> app_satelite fs = Inr (Stopped not_found)))"
proof (intro conjI impI)
  assume "df_empty df"
  then show "add_markers df c f l m = Inr m" by (simp add: add_markers_def)
next
  assume "df_empty df"
  then show "add_markers_and_radius rk df c f l dc sz wr m = Inr m"
    by (simp add: add_markers_and_radius_def)
next
  assume a: "\<forall>sf\<in>set files. \<forall>t. read_csv fs (snd sf) = Inr t \<longrightarrow> rows t = []"
  have ok: "combined_ok (fold (load_one fs) files DataFrame_new)"
    by (rule fold_load_one_ok) (simp add: combined_ok_def)
  have "rows (fold (load_one fs) files DataFrame_new) = []"
    by (rule fold_load_one_no_rows [OF _ a]) (simp add: DataFrame_new_def)
  with drop_duplicates_ok [OF ok] obtain d
    where d: "load_unique_data fs = Inr d" "rows d = []"
    unfolding load_unique_data_def by blast
  then have "app_satelite fs = Inr (Stopped not_found)"
    by (simp add: app_satelite_def on_result_def df_empty_def)
  with d show "\<exists>d. load_unique_data fs = Inr d \<and> rows d = []
             \<and> app_satelite fs = Inr (Stopped not_found)" by blast
qed

text \<open>The theorem at \<^verbatim>\<open>pd.DataFrame()\<close> and at a directory without files.\<close>

theorem empty_dataset_accepted_then_stopped_witness:
  "df_empty (DataFrame_new :: row DataFrame)
   \<and> read_csv (Map.empty :: int filesystem) ''TRAINING_SET.csv'' = Inl FileNotFoundError
   \<and> read_csv (Map.empty :: int filesystem) ''VALIDATION_SET.csv'' = Inl FileNotFoundError
   \<and> add_markers DataFrame_new ''dodgerblue'' ''cyan'' ''Training'' [] = Inr []
   \<and> add_markers_and_radius 5 DataFrame_new ''lime'' ''#39FF14'' ''Waste Water / Dam''
        (Some ''Description'') (5 / 4) False [] = Inr []
   \<and> (\<exists>d. load_unique_data (Map.empty :: int filesystem) = Inr d \<and> rows d = []
          \<and> app_satelite (Map.empty :: int filesystem) = Inr (Stopped not_found))"
proof -
  have h1: "df_empty (DataFrame_new :: row DataFrame)"
    by (simp add: df_empty_def DataFrame_new_def)
  have h2: "\<forall>sf\<in>set files. \<forall>t. read_csv (Map.empty :: int filesystem) (snd sf) = Inr t \<longrightarrow> rows t = []"
    by (simp add: read_csv_def)
  from empty_dataset_accepted_then_stopped [where df = "DataFrame_new :: row DataFrame"
      and fs = "Map.empty :: int filesystem" and c = "''dodgerblue''" and f = "''cyan''"
      and l = "''Training''" and m = "[]"] h1
  have a: "add_markers DataFrame_new ''dodgerblue'' ''cyan'' ''Training'' [] = Inr []" by blast
  from empty_dataset_accepted_then_stopped [where df = "DataFrame_new :: row DataFrame"
      and fs = "Map.empty :: int filesystem" and c = "''lime''" and f = "''#39FF14''"
      and l = "''Waste Water / Dam''" and m = "[]" and rk = 5 and dc = "Some ''Description''"
      and sz = "5 / 4" and wr = False] h1 h2
  have b: "add_markers_and_radius 5 DataFrame_new ''lime'' ''#39FF14'' ''Waste Water / Dam''
        (Some ''Description'') (5 / 4) False [] = Inr []"
    and c: "\<exists>d. load_unique_data (Map.empty :: int filesystem) = Inr d \<and> rows d = []
          \<and> app_satelite (Map.empty :: int filesystem) = Inr (Stopped not_found)"
    by blast+
  have r: "read_csv (Map.empty :: int filesystem) ''TRAINING_SET.csv'' = Inl FileNotFoundError"
    "read_csv (Map.empty :: int filesystem) ''VALIDATION_SET.csv'' = Inl FileNotFoundError"
    by (simp_all add: read_csv_def)
  from h1 r a b c show ?thesis by blast
qed

text \<open>
  C9 as stated has no special-case failure path. In a directory without the two
  station files \<^verbatim>\<open>load_unique_data\<close> returns \<^verbatim>\<open>pd.DataFrame()\<close>, and
  \<^verbatim>\<open>app_satelite.py\<close> takes the path written for exactly that result: it shows the
  error and stops.
\<close>

theorem empty_result_stops_counterexample:
  "load_unique_data (Map.empty :: int filesystem) = Inr \<lparr>columns = [], rows = []\<rparr>
   \<and> app_satelite (Map.empty :: int filesystem) = Inr (Stopped not_found)"
  by (simp add: app_satelite_def on_result_def load_unique_data_def files_def load_one_def
        read_csv_def DataFrame_new_def drop_duplicates_def df_empty_def)

end
